theory Spec2Isabelle
  imports Complex_Main
begin

section \<open>JavaScript strings\<close>

text \<open>
  Strings of the program are modelled as \<open>string\<close>: a \<open>char\<close> stands for the
  UTF-16 code unit of the same number, so the strings of the model are the JavaScript
  strings whose code units lie below 256. The helpers below are the few
  \<open>String.prototype\<close> methods that \<open>electron/main.ts\<close> and
  \<open>src/components/StatusBar.tsx\<close> call.
\<close>

fun starts_with :: "string \<Rightarrow> string \<Rightarrow> bool" where
  "starts_with s [] = True"
| "starts_with [] (p # ps) = False"
| "starts_with (c # cs) (p # ps) = (c = p \<and> starts_with cs ps)"

text \<open>\<open>s.includes(p)\<close>: \<open>p\<close> occurs in \<open>s\<close> as a contiguous run.\<close>

fun str_includes :: "string \<Rightarrow> string \<Rightarrow> bool" where
  "str_includes [] p = (p = [])"
| "str_includes (c # cs) p = (starts_with (c # cs) p \<or> str_includes cs p)"

text \<open>
  The white space and line terminators that \<open>trim\<close> strips, among the code units
  below 256: tab, line feed, vertical tab, form feed, carriage return, space and
  no-break space.
\<close>

definition js_space :: "char \<Rightarrow> bool" where
  "js_space c = (c \<in> {CHR '' '', CHR 0x09, CHR 0x0A, CHR 0x0B, CHR 0x0C, CHR 0x0D, CHR 0xA0})"

definition trim :: "string \<Rightarrow> string" where
  "trim s = rev (dropWhile js_space (rev (dropWhile js_space s)))"

text \<open>\<open>s.split('\n')\<close>: always at least one piece.\<close>

fun split_lines :: "string \<Rightarrow> string list" where
  "split_lines [] = [[]]"
| "split_lines (c # cs) =
     (if c = CHR 0x0A then [] # split_lines cs
      else (case split_lines cs of [] \<Rightarrow> [[c]] | l # ls \<Rightarrow> (c # l) # ls))"

text \<open>The character of a decimal digit \<open>d < 10\<close>.\<close>

definition digit_char :: "nat \<Rightarrow> char" where
  "digit_char d = ''0123456789'' ! d"

text \<open>\<open>String(n)\<close> and \<open>${n}\<close> for a non-negative integer: its decimal digits.\<close>

fun dec :: "nat \<Rightarrow> string" where
  "dec n = (if n < 10 then [digit_char n] else dec (n div 10) @ [digit_char (n mod 10)])"

declare dec.simps [simp del]

section \<open>Observable effects\<close>

text \<open>
  Every call the main process makes to the console, the shell, the renderer, the
  operating system or a timer is recorded, in order, as one \<open>effect\<close>.
\<close>

datatype effect =
    ConsoleLog string
  | ConsoleWarn string
  | ConsoleError string
  | OpenExternal string
  | Send string string
  | SendStatus bool "nat option" "nat option option"
  | Spawn string "string list" string
  | Taskkill nat
  | KillSignal nat string
  | KillDefault nat
  | SetTimeout nat
  | Fetch string
  | Sleep nat

section \<open>Opening external resources\<close>

text \<open>
  What the handlers read of a parsed \<open>URL\<close> object: \<open>protocol\<close> is the
  lower-cased scheme followed by a colon, \<open>hostname\<close> the host without port.
\<close>

record url =
  protocol :: string
  hostname :: string

text \<open>
  \<open>ipcMain.handle('open-external', ...)\<close>. The platform's \<open>new URL(url)\<close> is the
  parameter \<open>URL\<close>; \<open>None\<close> is the \<open>TypeError\<close> it throws, which the handler's
  \<open>catch\<close> turns into a warning.
\<close>

definition open_external :: "(string \<Rightarrow> url option) \<Rightarrow> string \<Rightarrow> effect list" where
  "open_external URL u =
     (case URL u of
        None \<Rightarrow> [ConsoleWarn (''Blocked open-external with invalid URL: '' @ u)]
      | Some parsed \<Rightarrow>
          if protocol parsed = ''https:'' \<or> protocol parsed = ''http:''
          then [OpenExternal u]
          else [ConsoleWarn (''Blocked open-external with unsafe protocol: '' @ protocol parsed)])"

datatype window_open_action = Deny | Allow

text \<open>The callback given to \<open>mainWindow.webContents.setWindowOpenHandler\<close>.\<close>

definition window_open_handler :: "string \<Rightarrow> effect list \<times> window_open_action" where
  "window_open_handler u = ([OpenExternal u], Deny)"

subsection \<open>A model of the platform's URL parser\<close>

text \<open>
  The parser itself belongs to the runtime, not to the repository. \<open>URL_parse\<close>
  follows the URL standard's state machine for the inputs used below: the input is
  stripped of leading and trailing C0 controls and spaces, tabs and newlines are
  removed, a scheme is an ASCII letter followed by letters, digits, \<open>+\<close>, \<open>-\<close>,
  \<open>.\<close> up to the first colon, and without one parsing fails. For \<open>http\<close> and
  \<open>https\<close> the authority runs to the first \<open>/\<close>, \<open>?\<close>, \<open>#\<close> or backslash,
  credentials end at the last \<open>@\<close>, the port must be decimal and at most 65535, and
  an empty host fails. The model covers ASCII hosts without percent signs whose last
  label is not a number in decimal, octal or hexadecimal notation, and hosts of four
  decimal octets, each at most 255 and without leading zeros. IPv6 literals in brackets,
  percent-encoded and non-ASCII hosts, and the other numeric forms, which the platform
  parses as IPv4 addresses and may reject, are outside it. The statements below hold for every parser; this one supplies the
  platform's answers at the inputs of the examples.
\<close>

definition ascii_alpha :: "char \<Rightarrow> bool" where
  "ascii_alpha c = (let n = (of_char c :: nat) in (65 \<le> n \<and> n \<le> 90) \<or> (97 \<le> n \<and> n \<le> 122))"

definition ascii_digit :: "char \<Rightarrow> bool" where
  "ascii_digit c = (let n = (of_char c :: nat) in 48 \<le> n \<and> n \<le> 57)"

definition to_lower :: "char \<Rightarrow> char" where
  "to_lower c = (let n = (of_char c :: nat) in if 65 \<le> n \<and> n \<le> 90 then char_of (n + 32) else c)"

definition scheme_char :: "char \<Rightarrow> bool" where
  "scheme_char c = (ascii_alpha c \<or> ascii_digit c \<or> c \<in> {CHR ''+'', CHR ''-'', CHR ''.''})"

definition c0_or_space :: "char \<Rightarrow> bool" where
  "c0_or_space c = ((of_char c :: nat) \<le> 32)"

definition tab_or_newline :: "char \<Rightarrow> bool" where
  "tab_or_newline c = (c \<in> {CHR 0x09, CHR 0x0A, CHR 0x0D})"

definition url_input :: "string \<Rightarrow> string" where
  "url_input s =
     filter (\<lambda>c. \<not> tab_or_newline c)
       (rev (dropWhile c0_or_space (rev (dropWhile c0_or_space s))))"

text \<open>Scheme and the text after its colon, or \<open>None\<close> when the input has no scheme.\<close>

definition split_scheme :: "string \<Rightarrow> (string \<times> string) option" where
  "split_scheme s =
     (case s of
        [] \<Rightarrow> None
      | c # cs \<Rightarrow>
          if \<not> ascii_alpha c then None
          else (let sch = takeWhile scheme_char s; rest = dropWhile scheme_char s
                in case rest of
                     [] \<Rightarrow> None
                   | r # rs \<Rightarrow> if r = CHR '':'' then Some (map to_lower sch, rs) else None))"

definition authority_end :: "char \<Rightarrow> bool" where
  "authority_end c = (c \<in> {CHR ''/'', CHR ''?'', CHR ''#'', CHR 0x5C})"

definition slash :: "char \<Rightarrow> bool" where
  "slash c = (c = CHR ''/'' \<or> c = CHR 0x5C)"

text \<open>The part of an authority after its last \<open>@\<close>.\<close>

fun after_credentials :: "string \<Rightarrow> string" where
  "after_credentials [] = []"
| "after_credentials (c # cs) =
     (if CHR ''@'' \<in> set cs then after_credentials cs
      else if c = CHR ''@'' then cs else c # cs)"

definition forbidden_host_char :: "char \<Rightarrow> bool" where
  "forbidden_host_char c =
     ((of_char c :: nat) \<le> 32 \<or> (of_char c :: nat) = 127 \<or>
      c \<in> {CHR ''#'', CHR ''/'', CHR '':'', CHR ''<'', CHR ''>'', CHR ''?'', CHR ''@'',
           CHR ''['', CHR 0x5C, CHR '']'', CHR ''^'', CHR ''|'', CHR ''%''})"

fun dec_value :: "string \<Rightarrow> nat \<Rightarrow> nat" where
  "dec_value [] acc = acc"
| "dec_value (c # cs) acc = dec_value cs (10 * acc + ((of_char c :: nat) - 48))"

definition port_ok :: "string \<Rightarrow> bool" where
  "port_ok p = (list_all ascii_digit p \<and> dec_value p 0 \<le> 65535)"

definition URL_parse :: "string \<Rightarrow> url option" where
  "URL_parse s =
     (case split_scheme (url_input s) of
        None \<Rightarrow> None
      | Some (sch, rest) \<Rightarrow>
          if sch = ''http'' \<or> sch = ''https'' then
            (let auth = after_credentials (takeWhile (\<lambda>c. \<not> authority_end c) (dropWhile slash rest));
                 host = takeWhile (\<lambda>c. c \<noteq> CHR '':'') auth;
                 port = drop 1 (dropWhile (\<lambda>c. c \<noteq> CHR '':'') auth)
             in if host = [] \<or> list_ex forbidden_host_char host \<or> \<not> port_ok port then None
                else Some \<lparr>protocol = sch @ '':'', hostname = map to_lower host\<rparr>)
          else Some \<lparr>protocol = sch @ '':'', hostname = []\<rparr>)"

section \<open>Settings accepted over the control channel\<close>

text \<open>
  Values that cross the IPC boundary. A JavaScript number is a finite double, which is
  a rational, or \<open>NaN\<close> (the two infinities are left out); objects are association
  lists read from the left.
\<close>

datatype jsval =
    JUndefined
  | JNull
  | JBool bool
  | JNum rat
  | JNaN
  | JStr string
  | JArr "jsval list"
  | JObj "(string \<times> jsval) list"

text \<open>
  The validators of the schema library, each returning the parsed value or \<open>None\<close>
  where \<open>safeParse\<close> reports failure.
\<close>

definition z_string :: "jsval \<Rightarrow> jsval option" where
  "z_string v = (case v of JStr s \<Rightarrow> Some (JStr s) | _ \<Rightarrow> None)"

definition z_boolean :: "jsval \<Rightarrow> jsval option" where
  "z_boolean v = (case v of JBool b \<Rightarrow> Some (JBool b) | _ \<Rightarrow> None)"

definition z_number :: "jsval \<Rightarrow> jsval option" where
  "z_number v = (case v of JNum r \<Rightarrow> Some (JNum r) | _ \<Rightarrow> None)"

definition is_integer :: "rat \<Rightarrow> bool" where
  "is_integer r = (of_int \<lfloor>r\<rfloor> = r)"

text \<open>\<open>z.number().int().min(lo).max(hi)\<close>\<close>

definition z_int_min_max :: "int \<Rightarrow> int \<Rightarrow> jsval \<Rightarrow> jsval option" where
  "z_int_min_max lo hi v =
     (case v of
        JNum r \<Rightarrow> if is_integer r \<and> of_int lo \<le> r \<and> r \<le> of_int hi then Some (JNum r) else None
      | _ \<Rightarrow> None)"

definition z_enum :: "string list \<Rightarrow> jsval \<Rightarrow> jsval option" where
  "z_enum opts v = (case v of JStr s \<Rightarrow> if s \<in> set opts then Some (JStr s) else None | _ \<Rightarrow> None)"

definition z_nullable :: "(jsval \<Rightarrow> jsval option) \<Rightarrow> jsval \<Rightarrow> jsval option" where
  "z_nullable f v = (if v = JNull then Some JNull else f v)"

definition z_array_of_string :: "jsval \<Rightarrow> jsval option" where
  "z_array_of_string v =
     (case v of
        JArr xs \<Rightarrow> if list_all (\<lambda>x. z_string x \<noteq> None) xs then Some (JArr xs) else None
      | _ \<Rightarrow> None)"

text \<open>
  \<open>z.object({ width: z.number(), height: z.number() })\<close>: keys other than the two
  declared ones are dropped from the parsed value.
\<close>

definition z_bounds :: "jsval \<Rightarrow> jsval option" where
  "z_bounds v =
     (case v of
        JObj kvs \<Rightarrow>
          (case (Option.bind (map_of kvs ''width'') z_number,
                 Option.bind (map_of kvs ''height'') z_number) of
             (Some w, Some h) \<Rightarrow> Some (JObj [(''width'', w), (''height'', h)])
           | _ \<Rightarrow> None)
      | _ \<Rightarrow> None)"

text \<open>
  \<open>settingsSchema.safeParse({ key, value })\<close>: the discriminated union picks the
  member by \<open>key\<close>; the result is the parsed \<open>value\<close>.
\<close>

definition settingsSchema :: "string \<Rightarrow> jsval \<Rightarrow> jsval option" where
  "settingsSchema key v =
     (if key = ''transcriptsPath'' then z_string v
      else if key = ''sourceDirectories'' then z_array_of_string v
      else if key = ''serverPort'' then z_int_min_max 1024 65535 v
      else if key = ''theme'' then z_enum [''dark'', ''light''] v
      else if key = ''llmBackend'' then z_nullable (z_enum [''ollama'', ''lmstudio'', ''openai'']) v
      else if key = ''whisperModel'' then z_string v
      else if key = ''gpuAcceleration'' then z_boolean v
      else if key = ''parallelWorkers'' then z_int_min_max 1 8 v
      else if key = ''windowBounds'' then z_bounds v
      else None)"

definition setting_names :: "string list" where
  "setting_names =
     [''transcriptsPath'', ''sourceDirectories'', ''serverPort'', ''theme'', ''llmBackend'',
      ''whisperModel'', ''gpuAcceleration'', ''parallelWorkers'', ''windowBounds'']"

type_synonym settings_store = "string \<rightharpoonup> jsval"

text \<open>
  \<open>ipcMain.handle('set-settings', ...)\<close>: the returned boolean, the store afterwards
  and what was written to the console.
\<close>

definition set_settings :: "settings_store \<Rightarrow> string \<Rightarrow> jsval \<Rightarrow> bool \<times> settings_store \<times> effect list" where
  "set_settings st key v =
     (case settingsSchema key v of
        None \<Rightarrow> (False, st, [ConsoleWarn (''Rejected invalid setting: '' @ key)])
      | Some d \<Rightarrow> (True, st(key \<mapsto> d), []))"

section \<open>Processes and the environment\<close>

text \<open>
  A \<open>ChildProcess\<close> object. \<open>cid\<close> is the identity of the object (what
  \<open>w !== worker\<close> compares); \<open>pid\<close> is \<open>None\<close> when the spawn produced no
  process.
\<close>

record child =
  cid :: nat
  pid :: "nat option"
  command :: string
  args :: "string list"

text \<open>JavaScript truthiness of \<open>child.pid\<close>.\<close>

definition pid_ok :: "child \<Rightarrow> bool" where
  "pid_ok c = (case pid c of None \<Rightarrow> False | Some p \<Rightarrow> p \<noteq> 0)"

text \<open>
  What a handler reads from outside the module at the time it runs: build mode and
  platform, paths, the file system, the values \<open>store.get\<close> returns, and the choices
  of the operating system. \<open>spawn_pid c\<close> is the pid given to the child object with
  identity \<open>c\<close>, \<open>path_join\<close> and \<open>path_dirname\<close> are the platform's
  \<open>path.join\<close> and \<open>path.dirname\<close>, \<open>now c\<close> the value of \<open>Date.now()\<close>
  read just before that child is
  spawned, \<open>probe i\<close> whether the \<open>i\<close>-th health request answers with an ok status,
  \<open>kill_throws c\<close> whether the first termination attempt on child \<open>c\<close> throws and
  \<open>kill_again_throws c\<close> whether the fallback \<open>kill()\<close> does.
\<close>

record env =
  isDev :: bool
  win32 :: bool
  pythonScriptsPath :: string
  resourcesPath :: string
  homeDocuments :: string
  path_join :: "string list \<Rightarrow> string"
  path_dirname :: "string \<Rightarrow> string"
  existsSync :: "string \<Rightarrow> bool"
  findPython :: "string option"
  windowAlive :: bool
  serverPort :: nat
  sourceDirectories :: "string list"
  gpuAcceleration :: bool
  parallelWorkers :: nat
  spawn_pid :: "nat \<Rightarrow> nat option"
  now :: "nat \<Rightarrow> nat"
  probe :: "nat \<Rightarrow> bool"
  kill_throws :: "nat \<Rightarrow> bool"
  kill_again_throws :: "nat \<Rightarrow> bool"

text \<open>
  The module-level variables of \<open>electron/main.ts\<close> (\<open>pythonProcess\<close>,
  \<open>transcriptionWorkers\<close>, \<open>isQuitting\<close>) together with the runtime's own state:
  the next object identity, the children carrying a \<open>close\<close> listener (those
  spawned with a pid whose \<open>close\<close> event has not been delivered yet), the pending
  \<open>setTimeout(() => startPythonServer(), 2000)\<close> callbacks, and the effects so far.
\<close>

record app =
  pythonProcess :: "child option"
  transcriptionWorkers :: "child list"
  isQuitting :: bool
  next_cid :: nat
  serverCloseHandlers :: "nat list"
  workerCloseHandlers :: "(nat \<times> nat) list"
  timers :: nat
  out :: "effect list"

definition init :: app where
  "init = \<lparr>pythonProcess = None, transcriptionWorkers = [], isQuitting = False, next_cid = 0,
           serverCloseHandlers = [], workerCloseHandlers = [], timers = 0, out = []\<rparr>"

definition emit :: "effect list \<Rightarrow> app \<Rightarrow> app" where
  "emit es s = s\<lparr>out := out s @ es\<rparr>"

text \<open>\<open>child_process.spawn(cmd, as, { cwd, ... })\<close>\<close>

definition spawn :: "env \<Rightarrow> string \<Rightarrow> string list \<Rightarrow> string \<Rightarrow> app \<Rightarrow> child \<times> app" where
  "spawn e cmd as cwd s =
     (let c = \<lparr>cid = next_cid s, pid = spawn_pid e (next_cid s), command = cmd, args = as\<rparr>
      in (c, s\<lparr>next_cid := Suc (next_cid s), out := out s @ [Spawn cmd as cwd]\<rparr>))"

fun join_with :: "string \<Rightarrow> string list \<Rightarrow> string" where
  "join_with sep [] = []"
| "join_with sep [x] = x"
| "join_with sep (x # y # ys) = x @ sep @ join_with sep (y # ys)"

definition getBundledExePath :: "env \<Rightarrow> string \<Rightarrow> string" where
  "getBundledExePath e name =
     path_join e [resourcesPath e, ''python-dist'', name, name @ (if win32 e then ''.exe'' else [])]"

definition python_not_found :: string where
  "python_not_found = ''Python 3 not found. Please install Python 3.9 or later.''"

section \<open>Service supervisor\<close>

text \<open>
  The first half of \<open>startPythonServer\<close>, up to \<open>console.log(`Port: ...`)\<close>: either
  the script or executable is missing (an error is logged and the function returns),
  or \<open>findPython\<close> throws, or command, arguments, working directory and the
  announcement are fixed.
\<close>

datatype launch =
    Missing string
  | NoInterpreter string
  | Launch string "string list" string string

definition server_launch :: "env \<Rightarrow> launch" where
  "server_launch e =
     (if isDev e then
        (let serverScript = path_join e [pythonScriptsPath e, ''course_library_server.py''] in
         if \<not> existsSync e serverScript
         then Missing (''ERROR: Server script not found at: '' @ serverScript)
         else (case findPython e of
                 None \<Rightarrow> NoInterpreter python_not_found
               | Some cmd \<Rightarrow>
                   (let as = [serverScript, ''--port'', dec (serverPort e)] in
                    Launch cmd as (pythonScriptsPath e)
                      (''Starting Python server (dev): '' @ cmd @ '' '' @ join_with '' '' as))))
      else
        (let exePath = getBundledExePath e ''coursevault-server'' in
         if \<not> existsSync e exePath
         then Missing (''ERROR: Bundled server not found at: '' @ exePath)
         else Launch exePath [''--port'', dec (serverPort e)] (path_dirname e exePath)
                (''Starting Python server (bundled): '' @ exePath)))"

text \<open>
  The loop of \<open>waitForServer\<close>, from iteration \<open>i\<close> with \<open>n\<close> iterations left: the
  effects it performs before it returns.
\<close>

fun wait_loop :: "env \<Rightarrow> nat \<Rightarrow> nat \<Rightarrow> effect list" where
  "wait_loop e i 0 =
     [ConsoleWarn ''Server taking longer than expected, but React app will keep retrying...'']"
| "wait_loop e i (Suc n) =
     Fetch (''http://127.0.0.1:'' @ dec (serverPort e) @ ''/health'') #
     (if probe e i then [ConsoleLog ''Python server is ready!'']
      else (if i mod 10 = 0
            then [ConsoleLog (''Server still initializing... ('' @ dec (i * 2) @ ''s elapsed)'')]
            else []) @
           Sleep 2000 # wait_loop e (Suc i) n)"

definition waitForServer :: "env \<Rightarrow> effect list" where
  "waitForServer e = wait_loop e 0 60"

text \<open>
  \<open>startPythonServer\<close>. The result is the exception that rejects the returned
  promise, if any, the state after the synchronous part, and the effects the function
  then awaits before its promise resolves.
\<close>

definition startPythonServer :: "env \<Rightarrow> app \<Rightarrow> string option \<times> app \<times> effect list" where
  "startPythonServer e s =
     (case server_launch e of
        Missing msg \<Rightarrow> (None, emit [ConsoleError msg] s, [])
      | NoInterpreter msg \<Rightarrow> (Some msg, s, [])
      | Launch cmd as cwd intro \<Rightarrow>
          (let s1 = emit [ConsoleLog intro, ConsoleLog (''Port: '' @ dec (serverPort e))] s;
               (c, s2) = spawn e cmd as cwd s1;
               s3 = s2\<lparr>pythonProcess := Some c\<rparr>
           in if \<not> pid_ok c
              then (None, emit [ConsoleError ''ERROR: Failed to spawn Python process''] s3, [])
              else (None,
                    (emit [ConsoleLog (''Python process started with PID: '' @ dec (the (pid c)))] s3)
                      \<lparr>serverCloseHandlers := serverCloseHandlers s3 @ [cid c]\<rparr>,
                    waitForServer e)))"

definition show_code :: "nat option \<Rightarrow> string" where
  "show_code code = (case code of None \<Rightarrow> ''null'' | Some n \<Rightarrow> dec n)"

text \<open>The listener \<open>pythonProcess.on('close', ...)\<close>.\<close>

definition server_on_close :: "nat option \<Rightarrow> app \<Rightarrow> app" where
  "server_on_close code s =
     (let s1 = (emit [ConsoleLog (''Python server exited with code '' @ show_code code)] s)
                 \<lparr>pythonProcess := None\<rparr>
      in if \<not> isQuitting s1 then (emit [SetTimeout 2000] s1)\<lparr>timers := Suc (timers s1)\<rparr> else s1)"

text \<open>
  The termination attempt shared by \<open>stopPythonServer\<close> and
  \<open>stopTranscriptionWorker\<close>: the effects of the \<open>try\<close> block and whether it throws.
\<close>

definition terminate :: "env \<Rightarrow> child \<Rightarrow> effect list \<times> bool" where
  "terminate e c =
     (if win32 e
      then (if pid_ok c then ([Taskkill (the (pid c))], kill_throws e (cid c)) else ([], False))
      else ([KillSignal (cid c) ''SIGTERM''], kill_throws e (cid c)))"

text \<open>\<open>stopPythonServer\<close>: the exception it throws, if any, and the state then.\<close>

definition stopPythonServer :: "env \<Rightarrow> app \<Rightarrow> string option \<times> app" where
  "stopPythonServer e s =
     (case pythonProcess s of
        None \<Rightarrow> (None, s)
      | Some c \<Rightarrow>
          (let s1 = emit (ConsoleLog ''Stopping Python server...'' # fst (terminate e c)) s in
           if snd (terminate e c)
           then (let s2 = emit [ConsoleError ''Error stopping Python server:'', KillDefault (cid c)] s1 in
                 if kill_again_throws e (cid c) then (Some ''kill'', s2)
                 else (None, s2\<lparr>pythonProcess := None\<rparr>))
           else (None, s1\<lparr>pythonProcess := None\<rparr>)))"

text \<open>\<open>ipcMain.handle('get-server-status', ...)\<close>: \<open>running\<close> and \<open>port\<close>.\<close>

definition get_server_status :: "env \<Rightarrow> app \<Rightarrow> bool \<times> nat" where
  "get_server_status e s = (pythonProcess s \<noteq> None, serverPort e)"

text \<open>
  \<open>ipcMain.handle('restart-server', ...)\<close> and the tray's Restart Server item:
  \<open>stopPythonServer(); await startPythonServer()\<close>.
\<close>

definition restart_server :: "env \<Rightarrow> app \<Rightarrow> string option \<times> app \<times> effect list" where
  "restart_server e s =
     (case stopPythonServer e s of
        (Some ex, s1) \<Rightarrow> (Some ex, s1, [])
      | (None, s1) \<Rightarrow> startPythonServer e s1)"

section \<open>Worker pool manager\<close>

text \<open>
  The first half of \<open>startTranscriptionWorker\<close> after the emptiness check: base
  command, working directory, \<open>isScript\<close> and the announcement.
\<close>

datatype worker_launch =
    WMissing string
  | WNoInterpreter string
  | WLaunch string string bool string

definition workerCount :: "env \<Rightarrow> nat" where
  "workerCount e = (if parallelWorkers e = 0 then 1 else parallelWorkers e)"

definition worker_launch :: "env \<Rightarrow> worker_launch" where
  "worker_launch e =
     (if isDev e then
        (let workerScript = path_join e [pythonScriptsPath e, ''parallel_worker.py''] in
         if \<not> existsSync e workerScript
         then WMissing (''ERROR: Worker script not found at: '' @ workerScript)
         else (case findPython e of
                 None \<Rightarrow> WNoInterpreter python_not_found
               | Some cmd \<Rightarrow>
                   WLaunch cmd (pythonScriptsPath e) True
                     (''Starting '' @ dec (workerCount e) @ '' transcription worker(s) (dev): '' @ workerScript)))
      else
        (let exePath = getBundledExePath e ''coursevault-worker'' in
         if \<not> existsSync e exePath
         then WMissing (''ERROR: Bundled worker not found at: '' @ exePath)
         else WLaunch exePath (path_dirname e exePath) False
                (''Starting '' @ dec (workerCount e) @ '' transcription worker(s) (bundled): '' @ exePath)))"

text \<open>\<open>sourceDirectories[0] || path.join(os.homedir(), 'Documents')\<close>\<close>

definition inputDir :: "env \<Rightarrow> string" where
  "inputDir e =
     (case sourceDirectories e of
        [] \<Rightarrow> homeDocuments e
      | d # ds \<Rightarrow> if d = [] then homeDocuments e else d)"

text \<open>\<open>`worker-${i + 1}-${Date.now()}`\<close>\<close>

definition workerId :: "nat \<Rightarrow> nat \<Rightarrow> string" where
  "workerId i t = ''worker-'' @ dec (i + 1) @ ''-'' @ dec t"

definition worker_args :: "env \<Rightarrow> string \<Rightarrow> bool \<Rightarrow> string \<Rightarrow> string list" where
  "worker_args e cwd isScript wid =
     (if isScript then [path_join e [cwd, ''parallel_worker.py''], ''-i'', inputDir e, ''--worker-id'', wid]
      else [''-i'', inputDir e, ''--worker-id'', wid])
     @ (if gpuAcceleration e then [''--gpu''] else [])"

text \<open>
  The spawning loop \<open>for (let i = 0; i < workerCount; i++)\<close>, at index \<open>i\<close> with
  \<open>n\<close> iterations left.
\<close>

fun spawn_workers :: "env \<Rightarrow> string \<Rightarrow> string \<Rightarrow> bool \<Rightarrow> nat \<Rightarrow> nat \<Rightarrow> app \<Rightarrow> app" where
  "spawn_workers e cmd cwd isScript i 0 s = s"
| "spawn_workers e cmd cwd isScript i (Suc n) s =
     (let wid = workerId i (now e (next_cid s));
          (w, s1) = spawn e cmd (worker_args e cwd isScript wid) cwd s
      in spawn_workers e cmd cwd isScript (Suc i) n
           (if \<not> pid_ok w
            then emit [ConsoleError (''ERROR: Failed to spawn transcription worker '' @ dec (i + 1))] s1
            else (emit [ConsoleLog (''Transcription worker '' @ dec (i + 1) @ '' started with PID: ''
                                     @ dec (the (pid w)))] s1)
                   \<lparr>workerCloseHandlers := workerCloseHandlers s1 @ [(cid w, i)],
                    transcriptionWorkers := transcriptionWorkers s1 @ [w]\<rparr>))"

text \<open>\<open>startTranscriptionWorker\<close>: the exception it throws, if any, and the state then.\<close>

definition startTranscriptionWorker :: "env \<Rightarrow> app \<Rightarrow> string option \<times> app" where
  "startTranscriptionWorker e s =
     (if transcriptionWorkers s \<noteq> [] then (None, emit [ConsoleLog ''Transcription workers already running''] s)
      else
        (case worker_launch e of
           WMissing msg \<Rightarrow> (None, emit [ConsoleError msg] s)
         | WNoInterpreter msg \<Rightarrow> (Some msg, s)
         | WLaunch cmd cwd isScript intro \<Rightarrow>
             (let s1 = emit [ConsoleLog intro,
                             ConsoleLog (''GPU acceleration: '' @ (if gpuAcceleration e then ''enabled'' else ''disabled'')),
                             ConsoleLog (''Source directories configured: '' @ join_with '', '' (sourceDirectories e)),
                             ConsoleLog (''Using input directory: '' @ inputDir e)] s;
                  s2 = spawn_workers e cmd cwd isScript 0 (workerCount e) s1
              in (None,
                  if windowAlive e
                  then emit [SendStatus True (Some (length (transcriptionWorkers s2))) None] s2
                  else s2))))"

text \<open>\<open>ipcMain.handle('get-transcription-status', ...)\<close>: \<open>running\<close>, \<open>workerCount\<close>, \<open>pids\<close>.\<close>

definition get_transcription_status :: "app \<Rightarrow> bool \<times> nat \<times> nat list" where
  "get_transcription_status s =
     (length (transcriptionWorkers s) > 0,
      length (transcriptionWorkers s),
      map (\<lambda>w. the (pid w)) (filter pid_ok (transcriptionWorkers s)))"

text \<open>\<open>ipcMain.handle('start-transcription', ...)\<close>\<close>

definition start_transcription :: "env \<Rightarrow> app \<Rightarrow> (string + bool \<times> nat) \<times> app" where
  "start_transcription e s =
     (case startTranscriptionWorker e s of
        (Some ex, s1) \<Rightarrow> (Inl ex, s1)
      | (None, s1) \<Rightarrow> (Inr (length (transcriptionWorkers s1) > 0, length (transcriptionWorkers s1)), s1))"

text \<open>The body of the loop of \<open>stopTranscriptionWorker\<close> for one worker.\<close>

definition stop_worker :: "env \<Rightarrow> child \<Rightarrow> effect list" where
  "stop_worker e w =
     fst (terminate e w) @
     (if snd (terminate e w)
      then [ConsoleError ''Error stopping transcription worker:'', KillDefault (cid w)]
      else [])"

definition stopTranscriptionWorker :: "env \<Rightarrow> app \<Rightarrow> app" where
  "stopTranscriptionWorker e s =
     (if transcriptionWorkers s = [] then s
      else (emit (ConsoleLog (''Stopping '' @ dec (length (transcriptionWorkers s)) @ '' transcription worker(s)...'')
                  # concat (map (stop_worker e) (transcriptionWorkers s))) s)
             \<lparr>transcriptionWorkers := []\<rparr>)"

text \<open>The listener \<open>worker.on('close', ...)\<close> of the worker \<open>c\<close> spawned at index \<open>i\<close>.\<close>

definition worker_on_close :: "env \<Rightarrow> nat \<Rightarrow> nat \<Rightarrow> nat option \<Rightarrow> app \<Rightarrow> app" where
  "worker_on_close e c i code s =
     (let s1 = (emit [ConsoleLog (''Transcription worker '' @ dec (i + 1) @ '' exited with code '' @ show_code code)] s)
                 \<lparr>transcriptionWorkers := filter (\<lambda>w. cid w \<noteq> c) (transcriptionWorkers s)\<rparr>
      in if transcriptionWorkers s1 = [] \<and> windowAlive e
         then emit [SendStatus False None (Some code)] s1
         else s1)"

subsection \<open>Worker output\<close>

text \<open>
  \<open>worker.stdout.on('data', ...)\<close> of the worker spawned at index \<open>i\<close>: the effects for
  one chunk of output.
\<close>

definition worker_stdout :: "env \<Rightarrow> nat \<Rightarrow> string \<Rightarrow> effect list" where
  "worker_stdout e i chunk =
     concat (map (\<lambda>line. ConsoleLog (''[Worker '' @ dec (i + 1) @ ''] '' @ line)
                          # (if windowAlive e then [Send ''transcriber-log'' line] else []))
                 (filter (\<lambda>l. trim l \<noteq> []) (split_lines chunk)))"

definition isFFmpegNoise :: "string \<Rightarrow> bool" where
  "isFFmpegNoise message =
     (str_includes message ''Error while decoding stream'' \<or>
      str_includes message ''Invalid data found when processing input'' \<or>
      str_includes message ''channel element'' \<or>
      str_includes message ''duplicate'' \<or>
      str_includes message ''Application provided invalid'' \<or>
      str_includes message ''Last message repeated'')"

text \<open>\<open>worker.stderr.on('data', ...)\<close>\<close>

definition worker_stderr :: "env \<Rightarrow> nat \<Rightarrow> string \<Rightarrow> effect list" where
  "worker_stderr e i message =
     (if isFFmpegNoise message
      then [ConsoleLog (''[Worker '' @ dec (i + 1) @ '' FFmpeg] '' @ take 100 (trim message) @ ''...'')]
      else ConsoleError (''[Worker '' @ dec (i + 1) @ '' Error] '' @ message)
           # (if windowAlive e then [Send ''transcriber-error'' message] else []))"

subsection \<open>The console of the user interface\<close>

text \<open>
  \<open>src/components/StatusBar.tsx\<close>: a \<open>LogEntry\<close> without its \<open>id\<close> and
  \<open>timestamp\<close>, \<open>addLog\<close>, and the listeners for the two worker channels.
\<close>

datatype log_type = Info | Error | Success | Progress | Warning

record log_entry =
  message :: string
  type :: log_type

definition addLog :: "string \<Rightarrow> log_type \<Rightarrow> log_entry list \<Rightarrow> log_entry list" where
  "addLog m t prev =
     (if prev \<noteq> [] \<and> message (last prev) = m then prev
      else drop (length prev - 200) prev @ [\<lparr>message = m, type = t\<rparr>])"

definition transcriber_log_type :: "string \<Rightarrow> log_type" where
  "transcriber_log_type trimmed =
     (if str_includes trimmed ''COMPLETED'' \<or> str_includes trimmed ''SUCCESS'' then Success
      else if str_includes trimmed ''ERROR'' \<or> str_includes trimmed ''FAILED'' then Error
      else if str_includes trimmed ''Processing:'' \<or> str_includes trimmed ''Transcribing'' then Progress
      else Info)"

definition onTranscriberLog :: "string \<Rightarrow> log_entry list \<Rightarrow> log_entry list" where
  "onTranscriberLog line logs =
     (let trimmed = trim line in
      if trimmed \<noteq> [] then addLog (''[Worker] '' @ trimmed) (transcriber_log_type trimmed) logs
      else logs)"

definition onTranscriberError :: "string \<Rightarrow> log_entry list \<Rightarrow> log_entry list" where
  "onTranscriberError err logs =
     (let trimmed = trim err in
      if trimmed \<noteq> [] then addLog (''[Worker Error] '' @ trimmed) Error logs
      else logs)"

text \<open>The renderer applied to the effects of the main process, in order.\<close>

fun deliver :: "effect list \<Rightarrow> log_entry list \<Rightarrow> log_entry list" where
  "deliver [] logs = logs"
| "deliver (Send ch m # es) logs =
     deliver es (if ch = ''transcriber-log'' then onTranscriberLog m logs
                 else if ch = ''transcriber-error'' then onTranscriberError m logs
                 else logs)"
| "deliver (x # es) logs = deliver es logs"

section \<open>Events\<close>

text \<open>
  What can happen to the supervisor: a call of one of its operations, the operating
  system reporting that a child's process has closed, a pending restart timer firing,
  and the application quitting (\<open>before-quit\<close> sets \<open>isQuitting\<close> and stops workers
  and server).
\<close>

datatype event =
    StartServer env
  | StopServer env
  | RestartServer env
  | GetServerStatus env
  | ServerClosed nat "nat option"
  | TimerFire env
  | Quit env

definition child_closed :: "nat \<Rightarrow> nat option \<Rightarrow> app \<Rightarrow> app" where
  "child_closed c code s =
     (if c \<in> set (serverCloseHandlers s)
      then server_on_close code (s\<lparr>serverCloseHandlers := removeAll c (serverCloseHandlers s)\<rparr>)
      else s)"

fun step :: "app \<Rightarrow> event \<Rightarrow> app" where
  "step s (StartServer e) = fst (snd (startPythonServer e s))"
| "step s (StopServer e) = snd (stopPythonServer e s)"
| "step s (RestartServer e) = fst (snd (restart_server e s))"
| "step s (GetServerStatus e) = s"
| "step s (ServerClosed c code) = child_closed c code s"
| "step s (TimerFire e) =
     (if timers s = 0 then s else fst (snd (startPythonServer e (s\<lparr>timers := timers s - 1\<rparr>))))"
| "step s (Quit e) = snd (stopPythonServer e (stopTranscriptionWorker e (s\<lparr>isQuitting := True\<rparr>)))"

definition run :: "app \<Rightarrow> event list \<Rightarrow> app" where
  "run s evs = foldl step s evs"

text \<open>
  The service processes that are running: spawned with a pid by \<open>startPythonServer\<close>
  and not yet reported closed. These are the children that carry its \<open>close\<close> listener.
\<close>

definition running_services :: "app \<Rightarrow> nat list" where
  "running_services s = serverCloseHandlers s"

text \<open>
  Every child that carries the server's \<open>close\<close> listener was created earlier than
  the next child will be.
\<close>

definition ids_below :: "app \<Rightarrow> bool" where
  "ids_below s = (\<forall>c \<in> set (serverCloseHandlers s). c < next_cid s)"

text \<open>
  The events that leave a stored handle \<open>c\<close> in place: everything except a stop, a
  restart, the application quitting, and the \<open>close\<close> event of another child.
\<close>

fun keeps_handle :: "nat \<Rightarrow> event \<Rightarrow> bool" where
  "keeps_handle c (StartServer e) = True"
| "keeps_handle c (StopServer e) = False"
| "keeps_handle c (RestartServer e) = False"
| "keeps_handle c (GetServerStatus e) = True"
| "keeps_handle c (ServerClosed c' code) = (c' = c)"
| "keeps_handle c (TimerFire e) = True"
| "keeps_handle c (Quit e) = False"



text \<open>
  A handle is stored, and the child \<open>c\<close> exists and carries no \<open>close\<close> listener.
\<close>

definition handle_stays :: "nat \<Rightarrow> app \<Rightarrow> bool" where
  "handle_stays c s = (pythonProcess s \<noteq> None \<and> c < next_cid s \<and> c \<notin> set (serverCloseHandlers s))"

section \<open>Observations on effect lists\<close>

fun is_spawn :: "effect \<Rightarrow> bool" where
  "is_spawn (Spawn cmd as cwd) = True"
| "is_spawn x = False"

fun is_send :: "effect \<Rightarrow> bool" where
  "is_send (Send ch m) = True"
| "is_send x = False"

fun is_console_error :: "effect \<Rightarrow> bool" where
  "is_console_error (ConsoleError m) = True"
| "is_console_error x = False"




text \<open>Whether the child object with identity \<open>c\<close> comes with a usable pid.\<close>

definition spawn_ok :: "env \<Rightarrow> nat \<Rightarrow> bool" where
  "spawn_ok e c = (case spawn_pid e c of None \<Rightarrow> False | Some p \<Rightarrow> p \<noteq> 0)"

section \<open>An environment for worked examples\<close>

text \<open>
  A packaged build on Linux with every file in place, port 8080, four workers
  requested, a clock that stands still, failing health probes, and an operating system
  that fails to start the fourth child object it is asked for.
\<close>

definition sample_env :: env where
  "sample_env =
     \<lparr>isDev = False, win32 = False, pythonScriptsPath = ''/app/python'',
      resourcesPath = ''/app/resources'', homeDocuments = ''/home/user/Documents'',
      path_join = join_with ''/'',
      path_dirname = (\<lambda>p. rev (drop 1 (dropWhile (\<lambda>c. c \<noteq> CHR ''/'') (rev p)))),
      existsSync = (\<lambda>p. True), findPython = Some ''python'', windowAlive = True,
      serverPort = 8080, sourceDirectories = [''/courses''], gpuAcceleration = True,
      parallelWorkers = 4,
      spawn_pid = (\<lambda>c. if c = 3 then None else Some (4000 + c)),
      now = (\<lambda>c. 1700000000000), probe = (\<lambda>i. False),
      kill_throws = (\<lambda>c. False), kill_again_throws = (\<lambda>c. False)\<rparr>"



section \<open>Verification: the control channel\<close>

lemmas url_eval =
  URL_parse_def url_input_def split_scheme_def c0_or_space_def tab_or_newline_def
  ascii_alpha_def ascii_digit_def scheme_char_def to_lower_def authority_end_def slash_def
  forbidden_host_char_def port_ok_def open_external_def

text \<open>
  Claim C9. Every request that reaches the window-open handler is answered with
  \<open>deny\<close>, and its URL is handed to the shell's external opener whatever its scheme
  or host: the handler does not parse the URL at all. The control-channel operation, by
  contrast, blocks \<open>javascript:alert(1)\<close>.
\<close>

theorem window_open_unrestricted:
  "fst (window_open_handler u) = [OpenExternal u] \<and> snd (window_open_handler u) = Deny"
  by (simp add: window_open_handler_def)

theorem window_open_unrestricted_witness:
  "fst (window_open_handler ''javascript:alert(1)'') = [OpenExternal ''javascript:alert(1)'']
   \<and> fst (window_open_handler ''http://127.0.0.1:8080/admin'') = [OpenExternal ''http://127.0.0.1:8080/admin'']
   \<and> OpenExternal ''javascript:alert(1)'' \<notin> set (open_external URL_parse ''javascript:alert(1)'')"
proof -
  have "open_external URL_parse ''javascript:alert(1)''
        = [ConsoleWarn ''Blocked open-external with unsafe protocol: javascript:'']"
    by (simp add: url_eval)
  then show ?thesis
    using window_open_unrestricted [of "''javascript:alert(1)''"]
          window_open_unrestricted [of "''http://127.0.0.1:8080/admin''"]
    by simp
qed

text \<open>
  Claim C2, as the code has it. The \<open>open-external\<close> handler hands a URL to the shell
  exactly when the URL parses and its scheme is \<open>http\<close> or \<open>https\<close>, and then does
  nothing else. A URL that parses with another scheme is not opened and one warning
  naming the scheme is written to the console; a URL that does not parse is not opened
  and one warning naming the URL is written. The host is never examined, so a loopback
  target with one of the two schemes is opened.
\<close>

theorem open_external_by_scheme_only:
  "(OpenExternal x \<in> set (open_external URL u) \<longleftrightarrow>
      x = u \<and> (\<exists>p. URL u = Some p \<and> (protocol p = ''https:'' \<or> protocol p = ''http:'')))
   \<and> (\<forall>p. URL u = Some p \<and> (protocol p = ''https:'' \<or> protocol p = ''http:'') \<longrightarrow>
        open_external URL u = [OpenExternal u])
   \<and> (\<forall>p. URL u = Some p \<and> protocol p \<noteq> ''https:'' \<and> protocol p \<noteq> ''http:'' \<longrightarrow>
        open_external URL u = [ConsoleWarn (''Blocked open-external with unsafe protocol: '' @ protocol p)])
   \<and> (URL u = None \<longrightarrow>
        open_external URL u = [ConsoleWarn (''Blocked open-external with invalid URL: '' @ u)])"
  by (auto simp: open_external_def split: option.splits)

text \<open>
  The claim's third part fails: \<open>http://127.0.0.1:8080/admin\<close> parses with host
  \<open>127.0.0.1\<close> and is opened.
\<close>

theorem open_external_loopback_counterexample:
  "URL_parse ''http://127.0.0.1:8080/admin'' = Some \<lparr>protocol = ''http:'', hostname = ''127.0.0.1''\<rparr>
   \<and> open_external URL_parse ''http://127.0.0.1:8080/admin'' = [OpenExternal ''http://127.0.0.1:8080/admin'']"
  by (simp add: url_eval)

theorem open_external_by_scheme_only_witness:
  "open_external URL_parse ''https://example.com'' = [OpenExternal ''https://example.com'']
   \<and> OpenExternal ''javascript:alert(1)'' \<notin> set (open_external URL_parse ''javascript:alert(1)'')
   \<and> open_external URL_parse ''javascript:alert(1)''
       = [ConsoleWarn ''Blocked open-external with unsafe protocol: javascript:'']
   \<and> open_external URL_parse ''not a url''
       = [ConsoleWarn ''Blocked open-external with invalid URL: not a url'']"
proof -
  have a: "URL_parse ''https://example.com'' = Some \<lparr>protocol = ''https:'', hostname = ''example.com''\<rparr>"
    by (simp add: url_eval)
  have b: "URL_parse ''javascript:alert(1)'' = Some \<lparr>protocol = ''javascript:'', hostname = []\<rparr>"
    by (simp add: url_eval)
  have c: "URL_parse ''not a url'' = None"
    by (simp add: url_eval)
  show ?thesis
    using open_external_by_scheme_only [of "''https://example.com''" URL_parse "''https://example.com''"]
          open_external_by_scheme_only [of "''javascript:alert(1)''" URL_parse "''javascript:alert(1)''"]
          open_external_by_scheme_only [of "''not a url''" URL_parse "''not a url''"]
    by (simp add: a b c)
qed

lemmas schema_eval =
  settingsSchema_def z_string_def z_boolean_def z_number_def z_int_min_max_def z_enum_def
  z_nullable_def z_array_of_string_def z_bounds_def is_integer_def

lemma is_integer_iff: "is_integer r \<longleftrightarrow> (\<exists>n::int. r = of_int n)"
  unfolding is_integer_def by (metis of_int_floor_cancel Ints_of_int Ints_cases)

lemma int_range_accepts:
  "z_int_min_max lo hi v \<noteq> None \<longleftrightarrow> (\<exists>n::int. v = JNum (of_int n) \<and> lo \<le> n \<and> n \<le> hi)"
  by (cases v) (auto simp: z_int_min_max_def is_integer_iff)

lemma enum_accepts: "z_enum opts v \<noteq> None \<longleftrightarrow> (\<exists>s \<in> set opts. v = JStr s)"
  by (cases v) (auto simp: z_enum_def)

lemma unknown_name_rejected: "key \<notin> set setting_names \<Longrightarrow> settingsSchema key v = None"
  by (simp add: settingsSchema_def setting_names_def)

text \<open>
  Claim C4. A \<open>set-settings\<close> request with an unknown name returns \<open>false\<close>; a
  request that returns \<open>false\<close> leaves the whole store as it was; a request returns
  \<open>true\<close> exactly when the value passes the validator fixed for the name, and then the
  parsed value is stored under that name. For \<open>parallelWorkers\<close> the validator accepts
  exactly the integers from 1 to 8, for \<open>theme\<close> exactly \<open>dark\<close> and \<open>light\<close>.
\<close>

theorem set_settings_validated:
  "(key \<notin> set setting_names \<longrightarrow> fst (set_settings st key v) = False)
   \<and> (fst (set_settings st key v) = False \<longrightarrow> fst (snd (set_settings st key v)) = st)
   \<and> (fst (set_settings st key v) = True \<longrightarrow>
        (\<exists>d. settingsSchema key v = Some d \<and> fst (snd (set_settings st key v)) = st(key \<mapsto> d)))
   \<and> fst (set_settings st key v) = (settingsSchema key v \<noteq> None)
   \<and> (fst (set_settings st ''parallelWorkers'' v) \<longleftrightarrow> (\<exists>n::int. v = JNum (of_int n) \<and> 1 \<le> n \<and> n \<le> 8))
   \<and> (fst (set_settings st ''theme'' v) \<longleftrightarrow> v = JStr ''dark'' \<or> v = JStr ''light'')"
proof -
  have a: "key \<notin> set setting_names \<longrightarrow> fst (set_settings st key v) = False"
    by (simp add: set_settings_def unknown_name_rejected)
  have b: "fst (set_settings st key v) = False \<longrightarrow> fst (snd (set_settings st key v)) = st"
    by (simp add: set_settings_def split: option.splits)
  have c: "fst (set_settings st key v) = True \<longrightarrow>
        (\<exists>d. settingsSchema key v = Some d \<and> fst (snd (set_settings st key v)) = st(key \<mapsto> d))"
    by (simp add: set_settings_def split: option.splits)
  have d: "fst (set_settings st k v) = (settingsSchema k v \<noteq> None)" for k
    by (simp add: set_settings_def split: option.splits)
  have e: "settingsSchema ''parallelWorkers'' v = z_int_min_max 1 8 v"
    by (simp add: settingsSchema_def)
  have f: "settingsSchema ''theme'' v = z_enum [''dark'', ''light''] v"
    by (simp add: settingsSchema_def)
  have g: "fst (set_settings st ''parallelWorkers'' v) \<longleftrightarrow> (\<exists>n::int. v = JNum (of_int n) \<and> 1 \<le> n \<and> n \<le> 8)"
    unfolding d e int_range_accepts by simp
  have h: "fst (set_settings st ''theme'' v) \<longleftrightarrow> v = JStr ''dark'' \<or> v = JStr ''light''"
    unfolding d f enum_accepts by auto
  show ?thesis using a b c d g h by blast
qed

theorem set_settings_validated_witness:
  "fst (set_settings [''parallelWorkers'' \<mapsto> JNum 2] ''parallelWorkers'' (JNum 999)) = False
   \<and> fst (snd (set_settings [''parallelWorkers'' \<mapsto> JNum 2] ''parallelWorkers'' (JNum 999))) = [''parallelWorkers'' \<mapsto> JNum 2]
   \<and> fst (set_settings [''theme'' \<mapsto> JStr ''dark''] ''theme'' (JStr ''ultraviolet'')) = False
   \<and> fst (set_settings [''theme'' \<mapsto> JStr ''dark''] ''theme'' (JStr ''light'')) = True
   \<and> fst (snd (set_settings [''theme'' \<mapsto> JStr ''dark''] ''theme'' (JStr ''light''))) ''theme'' = Some (JStr ''light'')
   \<and> fst (set_settings Map.empty ''pythonPath'' (JStr ''C:/malicious'')) = False"
proof -
  have k: "''pythonPath'' \<notin> set setting_names" by (simp add: setting_names_def)
  have n: "\<not> (\<exists>n::int. JNum 999 = JNum (of_int n) \<and> 1 \<le> n \<and> n \<le> 8)"
  proof
    assume "\<exists>n::int. JNum 999 = JNum (of_int n) \<and> 1 \<le> n \<and> n \<le> 8"
    then obtain n :: int where "(999::rat) = of_int n" "n \<le> 8" by auto
    then have "(of_int n :: rat) \<le> 8" by simp
    with \<open>(999::rat) = of_int n\<close> show False by simp
  qed
  have l: "settingsSchema ''theme'' (JStr ''light'') = Some (JStr ''light'')"
    by (simp add: schema_eval)
  show ?thesis
    using set_settings_validated [of "''parallelWorkers''" "[''parallelWorkers'' \<mapsto> JNum 2]" "JNum 999"]
          set_settings_validated [of "''theme''" "[''theme'' \<mapsto> JStr ''dark'']" "JStr ''ultraviolet''"]
          set_settings_validated [of "''theme''" "[''theme'' \<mapsto> JStr ''dark'']" "JStr ''light''"]
          set_settings_validated [of "''pythonPath''" Map.empty "JStr ''C:/malicious''"]
          k n l
    by auto
qed

section \<open>Verification: decimal rendering\<close>

lemma digit_cases: "d < 10 \<Longrightarrow> d \<in> {0, 1, 2, 3, 4, 5, 6, 7, 8, 9::nat}"
  by auto

lemma of_char_digit_char: "d < 10 \<Longrightarrow> (of_char (digit_char d) :: nat) = 48 + d"
  using digit_cases [of d] by (auto simp: digit_char_def)

lemma dec_value_append: "dec_value (xs @ ys) acc = dec_value ys (dec_value xs acc)"
  by (induction xs arbitrary: acc) simp_all

lemma dec_value_dec: "dec_value (dec n) 0 = n"
proof (induction n rule: dec.induct)
  case (1 n)
  show ?case
  proof (cases "n < 10")
    case True
    then show ?thesis by (simp add: dec.simps [of n] of_char_digit_char)
  next
    case False
    then have "dec_value (dec (n div 10)) 0 = n div 10" using 1 by simp
    with False show ?thesis
      by (simp add: dec.simps [of n] dec_value_append of_char_digit_char)
  qed
qed

lemma dec_inj: "dec a = dec b \<Longrightarrow> a = b"
  by (metis dec_value_dec)

lemma digit_char_not_dash: "d < 10 \<Longrightarrow> digit_char d \<noteq> CHR ''-''"
proof
  assume "d < 10" "digit_char d = CHR ''-''"
  then have "(of_char (digit_char d) :: nat) = of_char (CHR ''-'')" by simp
  with \<open>d < 10\<close> show False by (simp add: of_char_digit_char)
qed

lemma dec_no_dash: "CHR ''-'' \<notin> set (dec n)"
proof (induction n rule: dec.induct)
  case (1 n)
  show ?case
  proof (cases "n < 10")
    case True
    then show ?thesis using digit_char_not_dash [of n] by (simp add: dec.simps [of n])
  next
    case False
    then show ?thesis using 1 digit_char_not_dash [of "n mod 10"]
      by (simp add: dec.simps [of n])
  qed
qed

lemma workerId_inj: "workerId a t = workerId b u \<longleftrightarrow> a = b \<and> t = u"
proof
  assume "workerId a t = workerId b u"
  then have "dec (a + 1) @ CHR ''-'' # dec t = dec (b + 1) @ CHR ''-'' # dec u"
    by (simp add: workerId_def)
  then have "dec (a + 1) = dec (b + 1) \<and> dec t = dec u"
    using append_Cons_eq_iff [OF dec_no_dash dec_no_dash] by blast
  then show "a = b \<and> t = u" using dec_inj by fastforce
qed simp



section \<open>Verification: the worker pool\<close>

lemma spawn_fields [simp]:
  "cid (fst (spawn e cmd as cwd s)) = next_cid s"
  "pid (fst (spawn e cmd as cwd s)) = spawn_pid e (next_cid s)"
  "args (fst (spawn e cmd as cwd s)) = as"
  "command (fst (spawn e cmd as cwd s)) = cmd"
  "next_cid (snd (spawn e cmd as cwd s)) = Suc (next_cid s)"
  "out (snd (spawn e cmd as cwd s)) = out s @ [Spawn cmd as cwd]"
  "transcriptionWorkers (snd (spawn e cmd as cwd s)) = transcriptionWorkers s"
  "workerCloseHandlers (snd (spawn e cmd as cwd s)) = workerCloseHandlers s"
  "serverCloseHandlers (snd (spawn e cmd as cwd s)) = serverCloseHandlers s"
  "pythonProcess (snd (spawn e cmd as cwd s)) = pythonProcess s"
  "isQuitting (snd (spawn e cmd as cwd s)) = isQuitting s"
  "timers (snd (spawn e cmd as cwd s)) = timers s"
  by (simp_all add: spawn_def Let_def)

lemma emit_fields [simp]:
  "out (emit es s) = out s @ es"
  "next_cid (emit es s) = next_cid s"
  "transcriptionWorkers (emit es s) = transcriptionWorkers s"
  "workerCloseHandlers (emit es s) = workerCloseHandlers s"
  "serverCloseHandlers (emit es s) = serverCloseHandlers s"
  "pythonProcess (emit es s) = pythonProcess s"
  "isQuitting (emit es s) = isQuitting s"
  "timers (emit es s) = timers s"
  by (simp_all add: emit_def)

text \<open>One iteration of the spawning loop, as a state transformer.\<close>

lemma spawn_workers_Suc:
  "spawn_workers e cmd cwd isScript i (Suc n) s =
     spawn_workers e cmd cwd isScript (Suc i) n
       (let sp = spawn e cmd (worker_args e cwd isScript (workerId i (now e (next_cid s)))) cwd s
        in if \<not> pid_ok (fst sp)
           then emit [ConsoleError (''ERROR: Failed to spawn transcription worker '' @ dec (i + 1))] (snd sp)
           else (emit [ConsoleLog (''Transcription worker '' @ dec (i + 1) @ '' started with PID: ''
                                     @ dec (the (pid (fst sp))))] (snd sp))
                  \<lparr>workerCloseHandlers := workerCloseHandlers (snd sp) @ [(cid (fst sp), i)],
                   transcriptionWorkers := transcriptionWorkers (snd sp) @ [fst sp]\<rparr>)"
  by (simp add: Let_def case_prod_beta)

lemma pid_ok_spawn [simp]: "pid_ok (fst (spawn e cmd as cwd s)) = spawn_ok e (next_cid s)"
  by (simp add: pid_ok_def spawn_ok_def)

lemma spawn_workers_next_cid:
  "next_cid (spawn_workers e cmd cwd isScript i n s) = next_cid s + n"
proof (induction n arbitrary: i s)
  case 0
  show ?case by simp
next
  case (Suc n)
  show ?case unfolding spawn_workers_Suc by (simp add: Suc.IH Let_def)
qed

lemma spawn_workers_count:
  "length (transcriptionWorkers (spawn_workers e cmd cwd isScript i n s)) =
     length (transcriptionWorkers s) + length (filter (spawn_ok e) [next_cid s ..< next_cid s + n])"
proof (induction n arbitrary: i s)
  case 0
  show ?case by simp
next
  case (Suc n)
  have "[next_cid s ..< next_cid s + Suc n] = next_cid s # [Suc (next_cid s) ..< Suc (next_cid s) + n]"
    by (simp add: upt_conv_Cons)
  then show ?case unfolding spawn_workers_Suc by (simp add: Suc.IH Let_def)
qed

lemma spawn_workers_errors:
  "length (filter is_console_error (out (spawn_workers e cmd cwd isScript i n s))) =
     length (filter is_console_error (out s))
     + length (filter (\<lambda>c. \<not> spawn_ok e c) [next_cid s ..< next_cid s + n])"
proof (induction n arbitrary: i s)
  case 0
  show ?case by simp
next
  case (Suc n)
  have "[next_cid s ..< next_cid s + Suc n] = next_cid s # [Suc (next_cid s) ..< Suc (next_cid s) + n]"
    by (simp add: upt_conv_Cons)
  then show ?case unfolding spawn_workers_Suc by (simp add: Suc.IH Let_def)
qed

lemma spawn_workers_spawns:
  "filter is_spawn (out (spawn_workers e cmd cwd isScript i n s)) =
     filter is_spawn (out s)
     @ map (\<lambda>k. Spawn cmd (worker_args e cwd isScript (workerId (i + k) (now e (next_cid s + k)))) cwd) [0..<n]"
proof (induction n arbitrary: i s)
  case 0
  show ?case by simp
next
  case (Suc n)
  show ?case unfolding spawn_workers_Suc by (simp add: Suc.IH Let_def map_upt_Suc del: upt_Suc)
qed

lemma workerIds_distinct: "distinct (map (\<lambda>k. workerId (i + k) (t k)) [0..<n])"
  by (simp add: distinct_map inj_on_def workerId_inj)


lemmas pool_eval =
  worker_launch_def getBundledExePath_def workerCount_def
  worker_args_def inputDir_def workerId_def sample_env_def init_def spawn_ok_def Let_def digit_char_def

text \<open>
  Claim C6, as the code has it. \<open>startTranscriptionWorker\<close> with a non-empty pool only
  writes a console line. With an empty pool it first looks for the worker script or
  executable: when that is missing it logs an error and spawns nothing, when no Python
  interpreter is found it throws. Otherwise it makes exactly \<open>workerCount\<close> spawn
  attempts (the stored \<open>parallelWorkers\<close>, or 1 when that is 0); each attempt without
  a pid writes one \<open>console.error\<close> and the loop goes on; the worker count reported by
  the status query right afterwards is the number of attempts that produced a pid, at
  most \<open>workerCount\<close>.
\<close>

theorem startTranscriptionWorker_pool:
  "(transcriptionWorkers s \<noteq> [] \<longrightarrow>
      startTranscriptionWorker e s = (None, emit [ConsoleLog ''Transcription workers already running''] s))
   \<and> (transcriptionWorkers s = [] \<and> worker_launch e = WMissing msg \<longrightarrow>
      startTranscriptionWorker e s = (None, emit [ConsoleError msg] s))
   \<and> (transcriptionWorkers s = [] \<and> worker_launch e = WNoInterpreter msg \<longrightarrow>
      startTranscriptionWorker e s = (Some msg, s))
   \<and> (transcriptionWorkers s = [] \<and> worker_launch e = WLaunch cmd cwd isScript intro \<longrightarrow>
        length (filter is_spawn (out (snd (startTranscriptionWorker e s))))
          = length (filter is_spawn (out s)) + workerCount e
      \<and> fst (snd (get_transcription_status (snd (startTranscriptionWorker e s))))
          = length (filter (spawn_ok e) [next_cid s ..< next_cid s + workerCount e])
      \<and> fst (snd (get_transcription_status (snd (startTranscriptionWorker e s)))) \<le> workerCount e
      \<and> length (filter is_console_error (out (snd (startTranscriptionWorker e s))))
          = length (filter is_console_error (out s))
            + length (filter (\<lambda>c. \<not> spawn_ok e c) [next_cid s ..< next_cid s + workerCount e]))
   \<and> (0 < parallelWorkers e \<longrightarrow> workerCount e = parallelWorkers e)"
proof -
  have a: "transcriptionWorkers s \<noteq> [] \<longrightarrow>
      startTranscriptionWorker e s = (None, emit [ConsoleLog ''Transcription workers already running''] s)"
    by (simp add: startTranscriptionWorker_def)
  have b: "transcriptionWorkers s = [] \<and> worker_launch e = WMissing msg \<longrightarrow>
      startTranscriptionWorker e s = (None, emit [ConsoleError msg] s)"
    by (simp add: startTranscriptionWorker_def)
  have c: "transcriptionWorkers s = [] \<and> worker_launch e = WNoInterpreter msg \<longrightarrow>
      startTranscriptionWorker e s = (Some msg, s)"
    by (simp add: startTranscriptionWorker_def)
  have d: "length (filter is_spawn (out (snd (startTranscriptionWorker e s))))
          = length (filter is_spawn (out s)) + workerCount e
      \<and> fst (snd (get_transcription_status (snd (startTranscriptionWorker e s))))
          = length (filter (spawn_ok e) [next_cid s ..< next_cid s + workerCount e])
      \<and> fst (snd (get_transcription_status (snd (startTranscriptionWorker e s)))) \<le> workerCount e
      \<and> length (filter is_console_error (out (snd (startTranscriptionWorker e s))))
          = length (filter is_console_error (out s))
            + length (filter (\<lambda>c. \<not> spawn_ok e c) [next_cid s ..< next_cid s + workerCount e])"
    if h: "transcriptionWorkers s = []" "worker_launch e = WLaunch cmd cwd isScript intro"
  proof -
    define s1 where "s1 = emit [ConsoleLog intro,
                             ConsoleLog (''GPU acceleration: '' @ (if gpuAcceleration e then ''enabled'' else ''disabled'')),
                             ConsoleLog (''Source directories configured: '' @ join_with '', '' (sourceDirectories e)),
                             ConsoleLog (''Using input directory: '' @ inputDir e)] s"
    define s2 where "s2 = spawn_workers e cmd cwd isScript 0 (workerCount e) s1"
    have s1: "next_cid s1 = next_cid s" "transcriptionWorkers s1 = []"
             "filter is_spawn (out s1) = filter is_spawn (out s)"
             "filter is_console_error (out s1) = filter is_console_error (out s)"
      by (simp_all add: s1_def h)
    have res: "snd (startTranscriptionWorker e s) =
                 (if windowAlive e then emit [SendStatus True (Some (length (transcriptionWorkers s2))) None] s2 else s2)"
      by (simp add: startTranscriptionWorker_def h s1_def s2_def Let_def)
    have n: "length (transcriptionWorkers s2) = length (filter (spawn_ok e) [next_cid s ..< next_cid s + workerCount e])"
      unfolding s2_def spawn_workers_count by (simp add: s1)
    have le: "length (filter (spawn_ok e) [next_cid s ..< next_cid s + workerCount e]) \<le> workerCount e"
      using length_filter_le [of "spawn_ok e" "[next_cid s ..< next_cid s + workerCount e]"] by simp
    have sp: "length (filter is_spawn (out s2)) = length (filter is_spawn (out s)) + workerCount e"
      unfolding s2_def spawn_workers_spawns by (simp add: s1)
    have er: "length (filter is_console_error (out s2)) = length (filter is_console_error (out s))
            + length (filter (\<lambda>c. \<not> spawn_ok e c) [next_cid s ..< next_cid s + workerCount e])"
      unfolding s2_def spawn_workers_errors by (simp add: s1)
    show ?thesis
      unfolding res using n le sp er by (simp add: get_transcription_status_def)
  qed
  have f: "0 < parallelWorkers e \<longrightarrow> workerCount e = parallelWorkers e"
    by (simp add: workerCount_def)
  show ?thesis using a b c d f by blast
qed

text \<open>
  The claim's "otherwise it attempts the requested number of spawns" fails when the pool
  is empty and the worker executable is missing: four workers are requested and no
  spawn is attempted.
\<close>

theorem startTranscriptionWorker_missing_counterexample:
  "transcriptionWorkers init = []
   \<and> parallelWorkers (sample_env\<lparr>existsSync := (\<lambda>p. False)\<rparr>) = 4
   \<and> startTranscriptionWorker (sample_env\<lparr>existsSync := (\<lambda>p. False)\<rparr>) init =
       (None, emit [ConsoleError ''ERROR: Bundled worker not found at: /app/resources/python-dist/coursevault-worker/coursevault-worker''] init)
   \<and> filter is_spawn (out (snd (startTranscriptionWorker (sample_env\<lparr>existsSync := (\<lambda>p. False)\<rparr>) init))) = []"
  by (simp add: startTranscriptionWorker_def pool_eval emit_def)

theorem startTranscriptionWorker_pool_witness:
  "transcriptionWorkers init = []
   \<and> fst (snd (get_transcription_status (snd (startTranscriptionWorker sample_env init)))) = 3
   \<and> length (filter is_spawn (out (snd (startTranscriptionWorker sample_env init)))) = 4
   \<and> length (filter is_console_error (out (snd (startTranscriptionWorker sample_env init)))) = 1
   \<and> fst (snd (get_transcription_status
        (snd (startTranscriptionWorker sample_env (snd (startTranscriptionWorker sample_env init)))))) = 3"
proof -
  have l: "worker_launch sample_env =
      WLaunch ''/app/resources/python-dist/coursevault-worker/coursevault-worker''
              ''/app/resources/python-dist/coursevault-worker'' False
              ''Starting 4 transcription worker(s) (bundled): /app/resources/python-dist/coursevault-worker/coursevault-worker''"
    by (simp add: pool_eval dec.simps)
  have i: "transcriptionWorkers init = []" "next_cid init = 0" "out init = []"
    by (simp_all add: init_def)
  have w: "workerCount sample_env = 4" by (simp add: workerCount_def sample_env_def)
  have ok: "filter (spawn_ok sample_env) [0..<4] = [0, 1, 2]"
           "filter (\<lambda>c. \<not> spawn_ok sample_env c) [0..<4] = [3]"
    by (simp_all add: spawn_ok_def sample_env_def upt_conv_Cons)
  have first: "fst (snd (get_transcription_status (snd (startTranscriptionWorker sample_env init)))) = 3
     \<and> length (filter is_spawn (out (snd (startTranscriptionWorker sample_env init)))) = 4
     \<and> length (filter is_console_error (out (snd (startTranscriptionWorker sample_env init)))) = 1"
    using startTranscriptionWorker_pool [of init sample_env msg
            "''/app/resources/python-dist/coursevault-worker/coursevault-worker''"
            "''/app/resources/python-dist/coursevault-worker''" False
            "''Starting 4 transcription worker(s) (bundled): /app/resources/python-dist/coursevault-worker/coursevault-worker''"]
    by (simp add: l i w ok)
  then have ne: "transcriptionWorkers (snd (startTranscriptionWorker sample_env init)) \<noteq> []"
    by (auto simp: get_transcription_status_def)
  have "startTranscriptionWorker sample_env (snd (startTranscriptionWorker sample_env init))
        = (None, emit [ConsoleLog ''Transcription workers already running''] (snd (startTranscriptionWorker sample_env init)))"
    using startTranscriptionWorker_pool [of "snd (startTranscriptionWorker sample_env init)" sample_env] ne
    by blast
  then show ?thesis using first i by (simp add: get_transcription_status_def)
qed


text \<open>
  The workers spawned by one call of \<open>startTranscriptionWorker\<close> are passed
  \<open>workerId k t\<close> for the loop index \<open>k\<close> and the clock reading \<open>t\<close> taken before
  the spawn, and these identifiers are pairwise distinct within the call. Two identifiers
  are equal exactly when index and clock reading are both equal.
\<close>

lemma worker_ids_unique_within_call:
  "(transcriptionWorkers s = [] \<and> worker_launch e = WLaunch cmd cwd isScript intro \<longrightarrow>
      filter is_spawn (out (snd (startTranscriptionWorker e s))) =
        filter is_spawn (out s)
        @ map (\<lambda>k. Spawn cmd (worker_args e cwd isScript (workerId k (now e (next_cid s + k)))) cwd)
              [0..<workerCount e]
      \<and> distinct (map (\<lambda>k. workerId k (now e (next_cid s + k))) [0..<workerCount e]))
   \<and> (workerId a t = workerId b u \<longleftrightarrow> a = b \<and> t = u)"
proof -
  have "filter is_spawn (out (snd (startTranscriptionWorker e s))) =
        filter is_spawn (out s)
        @ map (\<lambda>k. Spawn cmd (worker_args e cwd isScript (workerId k (now e (next_cid s + k)))) cwd)
              [0..<workerCount e]"
    if h: "transcriptionWorkers s = []" "worker_launch e = WLaunch cmd cwd isScript intro"
    by (simp add: startTranscriptionWorker_def h Let_def spawn_workers_spawns)
  moreover have "distinct (map (\<lambda>k. workerId k (now e (next_cid s + k))) [0..<workerCount e])"
    using workerIds_distinct [of 0 "\<lambda>k. now e (next_cid s + k)" "workerCount e"] by simp
  ultimately show ?thesis using workerId_inj by blast
qed

text \<open>
  Claim C7 on the code. The identifier is built from the loop index and \<open>Date.now()\<close>
  under the comment "unique worker ID", and nothing else separates one call from the
  next: start, stop and start again while \<open>Date.now()\<close> returns the same millisecond
  passes \<open>worker-1-1700000000000\<close> to both workers, so an identifier is used twice in
  one run.
\<close>

theorem worker_ids_repeat:
  "filter is_spawn
     (out (snd (startTranscriptionWorker (sample_env\<lparr>parallelWorkers := 1\<rparr>)
             (stopTranscriptionWorker (sample_env\<lparr>parallelWorkers := 1\<rparr>)
               (snd (startTranscriptionWorker (sample_env\<lparr>parallelWorkers := 1\<rparr>) init))))))
   = [Spawn ''/app/resources/python-dist/coursevault-worker/coursevault-worker''
            [''-i'', ''/courses'', ''--worker-id'', ''worker-1-1700000000000'', ''--gpu'']
            ''/app/resources/python-dist/coursevault-worker'',
      Spawn ''/app/resources/python-dist/coursevault-worker/coursevault-worker''
            [''-i'', ''/courses'', ''--worker-id'', ''worker-1-1700000000000'', ''--gpu'']
            ''/app/resources/python-dist/coursevault-worker'']"
  by (simp add: startTranscriptionWorker_def stopTranscriptionWorker_def stop_worker_def terminate_def
        pool_eval spawn_def emit_def pid_ok_def dec.simps)

lemma worker_ids_two_workers:
  "filter is_spawn (out (snd (startTranscriptionWorker (sample_env\<lparr>parallelWorkers := 2\<rparr>) init))) =
     [Spawn ''/app/resources/python-dist/coursevault-worker/coursevault-worker''
            [''-i'', ''/courses'', ''--worker-id'', ''worker-1-1700000000000'', ''--gpu'']
            ''/app/resources/python-dist/coursevault-worker'',
      Spawn ''/app/resources/python-dist/coursevault-worker/coursevault-worker''
            [''-i'', ''/courses'', ''--worker-id'', ''worker-2-1700000000000'', ''--gpu'']
            ''/app/resources/python-dist/coursevault-worker'']
   \<and> ''worker-1-1700000000000'' \<noteq> ''worker-2-1700000000000''"
proof -
  have l: "worker_launch (sample_env\<lparr>parallelWorkers := 2\<rparr>) =
      WLaunch ''/app/resources/python-dist/coursevault-worker/coursevault-worker''
              ''/app/resources/python-dist/coursevault-worker'' False
              ''Starting 2 transcription worker(s) (bundled): /app/resources/python-dist/coursevault-worker/coursevault-worker''"
    by (simp add: pool_eval dec.simps)
  have i: "transcriptionWorkers init = []" "next_cid init = 0" "out init = []"
    by (simp_all add: init_def)
  have w: "workerCount (sample_env\<lparr>parallelWorkers := 2\<rparr>) = 2" by (simp add: workerCount_def sample_env_def)
  have ids: "workerId 0 (now sample_env 0) = ''worker-1-1700000000000''"
            "workerId (Suc 0) (now sample_env (Suc 0)) = ''worker-2-1700000000000''"
    by (simp_all add: workerId_def sample_env_def dec.simps digit_char_def)
  have as: "worker_args (sample_env\<lparr>parallelWorkers := 2\<rparr>) cwd False wid
            = [''-i'', ''/courses'', ''--worker-id'', wid, ''--gpu'']" for cwd wid
    by (simp add: worker_args_def inputDir_def sample_env_def)
  have two: "[0..<2] = [0, Suc 0]" by (simp add: upt_conv_Cons)
  show ?thesis
    using worker_ids_unique_within_call [of init "sample_env\<lparr>parallelWorkers := 2\<rparr>"
            "''/app/resources/python-dist/coursevault-worker/coursevault-worker''"
            "''/app/resources/python-dist/coursevault-worker''" False
            "''Starting 2 transcription worker(s) (bundled): /app/resources/python-dist/coursevault-worker/coursevault-worker''"]
    by (simp add: l i w ids as two)
qed

lemma transcriber_log_type_cases:
  "transcriber_log_type l \<in> {Success, Error, Progress, Info}"
  by (simp add: transcriber_log_type_def)

lemma worker_stdout_sends:
  "filter is_send (worker_stdout e i chunk) =
     (if windowAlive e
      then map (Send ''transcriber-log'') (filter (\<lambda>l. trim l \<noteq> []) (split_lines chunk))
      else [])"
proof -
  have t: "filter is_send (concat (map (\<lambda>line. [ConsoleLog (f line), Send ch line]) ls)) = map (Send ch) ls"
    for f ch ls
    by (induction ls) simp_all
  have n: "filter is_send (concat (map (\<lambda>line. [ConsoleLog (f line)]) ls)) = []" for f ls
    by (induction ls) simp_all
  show ?thesis by (simp add: worker_stdout_def t n)
qed

text \<open>
  Claim C8, as the code has it. For every non-blank line of a chunk of a worker's stdout
  the pool manager writes the line to the console under the worker's ordinal and, when the
  window exists, sends the bare line to the renderer on \<open>transcriber-log\<close>: unclassified
  and without any worker identifier. The renderer trims it, drops it when nothing is
  left, and otherwise classifies it as success when it contains \<open>COMPLETED\<close> or
  \<open>SUCCESS\<close>, else error when it contains \<open>ERROR\<close> or \<open>FAILED\<close>, else progress when
  it contains \<open>Processing:\<close> or \<open>Transcribing\<close>, else info, never warning, and adds it
  under the fixed label \<open>[Worker]\<close>; \<open>addLog\<close> skips a message equal to the last one and
  keeps the last 200 entries before the new one. A stderr chunk that contains one of the
  six decoder-noise markers is written to the console, cut to 100 characters, and not
  sent; any other stderr chunk is written to the console and, when the window exists,
  sent on \<open>transcriber-error\<close>, and the renderer adds it, trimmed, as error under the
  label \<open>[Worker Error]\<close>.
\<close>

theorem worker_output_relay:
  "worker_stdout e i chunk =
     concat (map (\<lambda>line. ConsoleLog (''[Worker '' @ dec (i + 1) @ ''] '' @ line)
                          # (if windowAlive e then [Send ''transcriber-log'' line] else []))
                 (filter (\<lambda>l. trim l \<noteq> []) (split_lines chunk)))
   \<and> filter is_send (worker_stdout e i chunk) =
     (if windowAlive e
      then map (Send ''transcriber-log'') (filter (\<lambda>l. trim l \<noteq> []) (split_lines chunk))
      else [])
   \<and> transcriber_log_type l =
     (if str_includes l ''COMPLETED'' \<or> str_includes l ''SUCCESS'' then Success
      else if str_includes l ''ERROR'' \<or> str_includes l ''FAILED'' then Error
      else if str_includes l ''Processing:'' \<or> str_includes l ''Transcribing'' then Progress
      else Info)
   \<and> transcriber_log_type l \<noteq> Warning
   \<and> deliver [Send ''transcriber-log'' line] logs =
     (if trim line = [] then logs
      else addLog (''[Worker] '' @ trim line) (transcriber_log_type (trim line)) logs)
   \<and> addLog msg ty logs =
     (if logs \<noteq> [] \<and> message (last logs) = msg then logs
      else drop (length logs - 200) logs @ [\<lparr>message = msg, type = ty\<rparr>])
   \<and> worker_stderr e i m =
     (if isFFmpegNoise m
      then [ConsoleLog (''[Worker '' @ dec (i + 1) @ '' FFmpeg] '' @ take 100 (trim m) @ ''...'')]
      else ConsoleError (''[Worker '' @ dec (i + 1) @ '' Error] '' @ m)
           # (if windowAlive e then [Send ''transcriber-error'' m] else []))
   \<and> (isFFmpegNoise m \<longleftrightarrow>
        str_includes m ''Error while decoding stream'' \<or>
        str_includes m ''Invalid data found when processing input'' \<or>
        str_includes m ''channel element'' \<or>
        str_includes m ''duplicate'' \<or>
        str_includes m ''Application provided invalid'' \<or>
        str_includes m ''Last message repeated'')
   \<and> deliver [Send ''transcriber-error'' m] logs =
     (if trim m = [] then logs else addLog (''[Worker Error] '' @ trim m) Error logs)"
proof -
  have a: "deliver [Send ''transcriber-log'' line] logs =
     (if trim line = [] then logs
      else addLog (''[Worker] '' @ trim line) (transcriber_log_type (trim line)) logs)"
    by (simp add: onTranscriberLog_def Let_def)
  have b: "deliver [Send ''transcriber-error'' m] logs =
     (if trim m = [] then logs else addLog (''[Worker Error] '' @ trim m) Error logs)"
    by (simp add: onTranscriberError_def Let_def)
  have c: "transcriber_log_type l =
     (if str_includes l ''COMPLETED'' \<or> str_includes l ''SUCCESS'' then Success
      else if str_includes l ''ERROR'' \<or> str_includes l ''FAILED'' then Error
      else if str_includes l ''Processing:'' \<or> str_includes l ''Transcribing'' then Progress
      else Info)"
    by (simp add: transcriber_log_type_def)
  have c': "transcriber_log_type l \<noteq> Warning"
    using transcriber_log_type_cases [of l] by auto
  have d: "worker_stderr e i m =
     (if isFFmpegNoise m
      then [ConsoleLog (''[Worker '' @ dec (i + 1) @ '' FFmpeg] '' @ take 100 (trim m) @ ''...'')]
      else ConsoleError (''[Worker '' @ dec (i + 1) @ '' Error] '' @ m)
           # (if windowAlive e then [Send ''transcriber-error'' m] else []))"
    by (simp add: worker_stderr_def)
  have f: "isFFmpegNoise m \<longleftrightarrow>
        str_includes m ''Error while decoding stream'' \<or>
        str_includes m ''Invalid data found when processing input'' \<or>
        str_includes m ''channel element'' \<or>
        str_includes m ''duplicate'' \<or>
        str_includes m ''Application provided invalid'' \<or>
        str_includes m ''Last message repeated''"
    by (simp add: isFFmpegNoise_def)
  have g: "addLog msg ty logs =
     (if logs \<noteq> [] \<and> message (last logs) = msg then logs
      else drop (length logs - 200) logs @ [\<lparr>message = msg, type = ty\<rparr>])"
    by (simp add: addLog_def)
  have h: "worker_stdout e i chunk =
     concat (map (\<lambda>line. ConsoleLog (''[Worker '' @ dec (i + 1) @ ''] '' @ line)
                          # (if windowAlive e then [Send ''transcriber-log'' line] else []))
                 (filter (\<lambda>l. trim l \<noteq> []) (split_lines chunk)))"
    by (simp add: worker_stdout_def)
  show ?thesis
    by (intro conjI) (rule h, rule worker_stdout_sends, rule c, rule c', rule a, rule g, rule d, rule f, rule b)
qed

text \<open>
  The claim fails in two places: the event for a completion line is the same whichever
  worker wrote it, and a stdout line with a noise marker is sent to the renderer.
\<close>

theorem worker_output_attribution_counterexample:
  "filter is_send (worker_stdout sample_env 0 (''COMPLETED lecture-01.mp4'' @ [CHR 0x0A]))
     = [Send ''transcriber-log'' ''COMPLETED lecture-01.mp4'']
   \<and> filter is_send (worker_stdout sample_env 1 (''COMPLETED lecture-01.mp4'' @ [CHR 0x0A]))
     = [Send ''transcriber-log'' ''COMPLETED lecture-01.mp4'']
   \<and> deliver [Send ''transcriber-log'' ''COMPLETED lecture-01.mp4''] []
     = [\<lparr>message = ''[Worker] COMPLETED lecture-01.mp4'', type = Success\<rparr>]
   \<and> isFFmpegNoise ''duplicate frame dropped''
   \<and> worker_stdout sample_env 0 ''duplicate frame dropped''
     = [ConsoleLog ''[Worker 1] duplicate frame dropped'', Send ''transcriber-log'' ''duplicate frame dropped'']"
proof -
  have w: "windowAlive sample_env" by (simp add: sample_env_def)
  have a: "filter (\<lambda>l. trim l \<noteq> []) (split_lines (''COMPLETED lecture-01.mp4'' @ [CHR 0x0A]))
           = [''COMPLETED lecture-01.mp4'']"
    by (simp add: trim_def js_space_def)
  have b: "filter is_send (worker_stdout sample_env i (''COMPLETED lecture-01.mp4'' @ [CHR 0x0A]))
     = [Send ''transcriber-log'' ''COMPLETED lecture-01.mp4'']" for i
    unfolding worker_stdout_sends a using w by simp
  have c: "deliver [Send ''transcriber-log'' ''COMPLETED lecture-01.mp4''] []
     = [\<lparr>message = ''[Worker] COMPLETED lecture-01.mp4'', type = Success\<rparr>]"
    by (simp add: onTranscriberLog_def addLog_def Let_def trim_def js_space_def transcriber_log_type_def)
  have d: "isFFmpegNoise ''duplicate frame dropped''"
    by (simp add: isFFmpegNoise_def)
  have f: "worker_stdout sample_env 0 ''duplicate frame dropped''
     = [ConsoleLog ''[Worker 1] duplicate frame dropped'', Send ''transcriber-log'' ''duplicate frame dropped'']"
    by (simp add: worker_stdout_def w trim_def js_space_def dec.simps digit_char_def)
  show ?thesis using b [of 0] b [of 1] c d f by blast
qed

theorem worker_output_relay_witness:
  "transcriber_log_type ''COMPLETED lecture-01.mp4'' = Success
   \<and> deliver [Send ''transcriber-log'' ''Transcribing lecture-02.mp4'']
         [\<lparr>message = ''[Worker] Transcribing lecture-01.mp4'', type = Progress\<rparr>]
       = [\<lparr>message = ''[Worker] Transcribing lecture-01.mp4'', type = Progress\<rparr>,
          \<lparr>message = ''[Worker] Transcribing lecture-02.mp4'', type = Progress\<rparr>]
   \<and> deliver [Send ''transcriber-log'' ''Transcribing lecture-02.mp4'']
         [\<lparr>message = ''[Worker] Transcribing lecture-02.mp4'', type = Progress\<rparr>]
       = [\<lparr>message = ''[Worker] Transcribing lecture-02.mp4'', type = Progress\<rparr>]
   \<and> deliver [Send ''transcriber-log'' [CHR 0xA0, CHR '' '']] [] = []
   \<and> worker_stderr sample_env 0 ''Error while decoding stream #0:1''
       = [ConsoleLog ''[Worker 1 FFmpeg] Error while decoding stream #0:1...'']
   \<and> worker_stderr sample_env 0 ''Traceback: boom''
       = [ConsoleError ''[Worker 1 Error] Traceback: boom'', Send ''transcriber-error'' ''Traceback: boom'']
   \<and> deliver [Send ''transcriber-error'' ''Traceback: boom''] []
       = [\<lparr>message = ''[Worker Error] Traceback: boom'', type = Error\<rparr>]"
proof -
  have w: "windowAlive sample_env" by (simp add: sample_env_def)
  have t: "trim ''Transcribing lecture-02.mp4'' = ''Transcribing lecture-02.mp4''"
          "trim ''Traceback: boom'' = ''Traceback: boom''"
          "trim ''Error while decoding stream #0:1'' = ''Error while decoding stream #0:1''"
          "trim [CHR 0xA0, CHR '' ''] = []"
    by (simp_all add: trim_def js_space_def)
  have h: "dec (Suc 0) = ''1''" by (simp add: dec.simps digit_char_def)
  note r1 = worker_output_relay [where e = sample_env and i = 0 and l = "''COMPLETED lecture-01.mp4''"
              and line = "''Transcribing lecture-02.mp4''"
              and logs = "[\<lparr>message = ''[Worker] Transcribing lecture-01.mp4'', type = Progress\<rparr>]"
              and msg = "''[Worker] Transcribing lecture-02.mp4''" and ty = Progress
              and m = "''Error while decoding stream #0:1''" and chunk = "[]"]
  note r2 = worker_output_relay [where e = sample_env and i = 0 and l = "''Transcribing lecture-02.mp4''"
              and line = "''Transcribing lecture-02.mp4''"
              and logs = "[\<lparr>message = ''[Worker] Transcribing lecture-02.mp4'', type = Progress\<rparr>]"
              and msg = "''[Worker] Transcribing lecture-02.mp4''" and ty = Progress
              and m = "''Traceback: boom''" and chunk = "[]"]
  note r3 = worker_output_relay [where e = sample_env and i = 0 and l = "[]"
              and line = "[CHR 0xA0, CHR '' '']" and logs = "[]"
              and msg = "''[Worker Error] Traceback: boom''" and ty = Error
              and m = "''Traceback: boom''" and chunk = "[]"]
  have a: "transcriber_log_type ''COMPLETED lecture-01.mp4'' = Success"
    using r1 by simp
  have b: "deliver [Send ''transcriber-log'' ''Transcribing lecture-02.mp4'']
         [\<lparr>message = ''[Worker] Transcribing lecture-01.mp4'', type = Progress\<rparr>]
       = [\<lparr>message = ''[Worker] Transcribing lecture-01.mp4'', type = Progress\<rparr>,
          \<lparr>message = ''[Worker] Transcribing lecture-02.mp4'', type = Progress\<rparr>]"
    using r1 r2 by (simp add: t)
  have c: "deliver [Send ''transcriber-log'' ''Transcribing lecture-02.mp4'']
         [\<lparr>message = ''[Worker] Transcribing lecture-02.mp4'', type = Progress\<rparr>]
       = [\<lparr>message = ''[Worker] Transcribing lecture-02.mp4'', type = Progress\<rparr>]"
    using r2 by (simp add: t)
  have d: "deliver [Send ''transcriber-log'' [CHR 0xA0, CHR '' '']] [] = []"
    using r3 by (simp add: t)
  have f: "worker_stderr sample_env 0 ''Error while decoding stream #0:1''
       = [ConsoleLog ''[Worker 1 FFmpeg] Error while decoding stream #0:1...'']"
    using r1 by (simp add: t h)
  have g: "worker_stderr sample_env 0 ''Traceback: boom''
       = [ConsoleError ''[Worker 1 Error] Traceback: boom'', Send ''transcriber-error'' ''Traceback: boom'']"
    using r2 by (simp add: w h)
  have k: "deliver [Send ''transcriber-error'' ''Traceback: boom''] []
       = [\<lparr>message = ''[Worker Error] Traceback: boom'', type = Error\<rparr>]"
    using r3 by (simp add: t)
  show ?thesis using a b c d f g k by blast
qed

section \<open>Verification: the service supervisor\<close>






lemma startPythonServer_cases:
  "startPythonServer e s =
     (case server_launch e of
        Missing msg \<Rightarrow> (None, emit [ConsoleError msg] s, [])
      | NoInterpreter msg \<Rightarrow> (Some msg, s, [])
      | Launch cmd as cwd intro \<Rightarrow>
          (if \<not> spawn_ok e (next_cid s)
           then (None,
                 s\<lparr>next_cid := Suc (next_cid s),
                   pythonProcess := Some \<lparr>cid = next_cid s, pid = spawn_pid e (next_cid s), command = cmd, args = as\<rparr>,
                   out := out s @ [ConsoleLog intro, ConsoleLog (''Port: '' @ dec (serverPort e)), Spawn cmd as cwd,
                                   ConsoleError ''ERROR: Failed to spawn Python process'']\<rparr>,
                 [])
           else (None,
                 s\<lparr>next_cid := Suc (next_cid s),
                   pythonProcess := Some \<lparr>cid = next_cid s, pid = spawn_pid e (next_cid s), command = cmd, args = as\<rparr>,
                   serverCloseHandlers := serverCloseHandlers s @ [next_cid s],
                   out := out s @ [ConsoleLog intro, ConsoleLog (''Port: '' @ dec (serverPort e)), Spawn cmd as cwd,
                                   ConsoleLog (''Python process started with PID: '' @ dec (the (spawn_pid e (next_cid s))))]\<rparr>,
                 waitForServer e)))"
  by (simp add: startPythonServer_def spawn_def emit_def Let_def pid_ok_def spawn_ok_def
           split: launch.splits option.splits)


lemma stopTranscriptionWorker_fields [simp]:
  "next_cid (stopTranscriptionWorker e s) = next_cid s"
  "serverCloseHandlers (stopTranscriptionWorker e s) = serverCloseHandlers s"
  "pythonProcess (stopTranscriptionWorker e s) = pythonProcess s"
  "isQuitting (stopTranscriptionWorker e s) = isQuitting s"
  "timers (stopTranscriptionWorker e s) = timers s"
  by (simp_all add: stopTranscriptionWorker_def)

lemma stopPythonServer_fields [simp]:
  "next_cid (snd (stopPythonServer e s)) = next_cid s"
  "serverCloseHandlers (snd (stopPythonServer e s)) = serverCloseHandlers s"
  "isQuitting (snd (stopPythonServer e s)) = isQuitting s"
  "timers (snd (stopPythonServer e s)) = timers s"
  by (simp_all add: stopPythonServer_def Let_def split: option.splits)

lemma stopPythonServer_clears:
  "fst (stopPythonServer e s) = None \<Longrightarrow> pythonProcess (snd (stopPythonServer e s)) = None"
  by (auto simp: stopPythonServer_def Let_def split: option.splits if_splits)

lemma restart_server_cases:
  "restart_server e s =
     (case fst (stopPythonServer e s) of
        Some ex \<Rightarrow> (Some ex, snd (stopPythonServer e s), [])
      | None \<Rightarrow> startPythonServer e (snd (stopPythonServer e s)))"
  by (simp add: restart_server_def split: prod.splits option.splits)

lemma startPythonServer_ids_below:
  "ids_below s \<Longrightarrow> ids_below (fst (snd (startPythonServer e s)))"
  by (auto simp: ids_below_def startPythonServer_cases split: launch.splits)

lemma child_closed_ids_below: "ids_below s \<Longrightarrow> ids_below (child_closed c code s)"
  by (auto simp: ids_below_def child_closed_def server_on_close_def Let_def)

lemma stopPythonServer_ids_below: "ids_below s \<Longrightarrow> ids_below (snd (stopPythonServer e s))"
  by (simp add: ids_below_def)

lemma ids_below_step: "ids_below s \<Longrightarrow> ids_below (step s ev)"
proof (cases ev)
  case (StartServer e)
  assume "ids_below s"
  then show ?thesis using StartServer by (simp add: startPythonServer_ids_below)
next
  case (StopServer e)
  assume "ids_below s"
  then show ?thesis using StopServer by (simp add: stopPythonServer_ids_below)
next
  case (RestartServer e)
  assume a: "ids_below s"
  show ?thesis
  proof (cases "fst (stopPythonServer e s)")
    case None
    then have "restart_server e s = startPythonServer e (snd (stopPythonServer e s))"
      by (simp add: restart_server_cases)
    then show ?thesis
      using RestartServer a by (simp add: startPythonServer_ids_below stopPythonServer_ids_below)
  next
    case (Some ex)
    then have "fst (snd (restart_server e s)) = snd (stopPythonServer e s)"
      by (simp add: restart_server_cases)
    then show ?thesis using RestartServer a by (simp add: stopPythonServer_ids_below)
  qed
next
  case (GetServerStatus e)
  assume "ids_below s"
  then show ?thesis using GetServerStatus by simp
next
  case (ServerClosed c code)
  assume "ids_below s"
  then show ?thesis using ServerClosed by (simp add: child_closed_ids_below)
next
  case (TimerFire e)
  assume a: "ids_below s"
  then have "ids_below (s\<lparr>timers := timers s - 1\<rparr>)" by (simp add: ids_below_def)
  then show ?thesis using TimerFire a by (simp add: startPythonServer_ids_below)
next
  case (Quit e)
  assume a: "ids_below s"
  then have "ids_below (stopTranscriptionWorker e (s\<lparr>isQuitting := True\<rparr>))" by (simp add: ids_below_def)
  then show ?thesis using Quit by (simp add: stopPythonServer_ids_below)
qed

lemma ids_below_run: "ids_below s \<Longrightarrow> ids_below (run s evs)"
  unfolding run_def by (induction evs arbitrary: s) (simp_all add: ids_below_step)

lemma ids_below_init: "ids_below init"
  by (simp add: ids_below_def init_def)

lemma run_Cons: "run s (ev # evs) = run (step s ev) evs"
  by (simp add: run_def)

lemma run_Nil: "run s [] = s"
  by (simp add: run_def)

text \<open>A stored handle without a listener survives every event that \<open>keeps_handle\<close> admits.\<close>

lemma handle_stays_start:
  "handle_stays c s \<Longrightarrow> handle_stays c (fst (snd (startPythonServer e s)))"
  by (auto simp: handle_stays_def startPythonServer_cases split: launch.splits)

lemma handle_stays_step: "handle_stays c s \<Longrightarrow> keeps_handle c ev \<Longrightarrow> handle_stays c (step s ev)"
proof (cases ev)
  case (TimerFire e)
  assume a: "handle_stays c s"
  then have "handle_stays c (s\<lparr>timers := timers s - 1\<rparr>)" by (simp add: handle_stays_def)
  then show ?thesis using TimerFire a by (simp add: handle_stays_start)
next
  case (ServerClosed c' code)
  assume "handle_stays c s" "keeps_handle c ev"
  then show ?thesis using ServerClosed by (simp add: handle_stays_def child_closed_def)
qed (simp_all add: handle_stays_start)

lemma handle_stays_run:
  "handle_stays c s \<Longrightarrow> \<forall>ev \<in> set evs. keeps_handle c ev \<Longrightarrow> handle_stays c (run s evs)"
  unfolding run_def by (induction evs arbitrary: s) (simp_all add: handle_stays_step)


lemma sample_env_fields [simp]:
  "spawn_pid sample_env c = (if c = 3 then None else Some (4000 + c))"
  "win32 sample_env = False"
  "kill_throws sample_env c = False"
  "kill_again_throws sample_env c = False"
  "serverPort sample_env = 8080"
  "probe sample_env i = False"
  "windowAlive sample_env = True"
  by (simp_all add: sample_env_def)

lemma sample_spawn_ok [simp]: "spawn_ok sample_env c = (c \<noteq> 3)"
  by (simp add: spawn_ok_def)

lemma sample_launch:
  "server_launch sample_env =
     Launch ''/app/resources/python-dist/coursevault-server/coursevault-server''
            [''--port'', ''8080''] ''/app/resources/python-dist/coursevault-server''
            ''Starting Python server (bundled): /app/resources/python-dist/coursevault-server/coursevault-server''"
  by (simp add: server_launch_def getBundledExePath_def sample_env_def
        Let_def dec.simps digit_char_def)

lemma sample_launch_no_pid:
  "server_launch (sample_env\<lparr>spawn_pid := (\<lambda>c. None)\<rparr>) = server_launch sample_env"
  by (simp add: server_launch_def getBundledExePath_def sample_env_def Let_def)

lemmas service_eval =
  run_Cons run_Nil startPythonServer_cases restart_server_cases stopPythonServer_def terminate_def
  child_closed_def server_on_close_def emit_def pid_ok_def sample_launch init_def Let_def
  running_services_def get_server_status_def spawn_ok_def








text \<open>
  When a service process closes while the application is not quitting, the listener
  clears the handle and schedules one restart after 2000 ms; while it is quitting, it
  only clears the handle.
\<close>

lemma crash_schedules_restart:
  "c \<in> set (serverCloseHandlers s) \<Longrightarrow> \<not> isQuitting s \<Longrightarrow>
     pythonProcess (child_closed c code s) = None
     \<and> timers (child_closed c code s) = Suc (timers s)
     \<and> out (child_closed c code s) =
         out s @ [ConsoleLog (''Python server exited with code '' @ show_code code), SetTimeout 2000]"
  by (simp add: child_closed_def server_on_close_def emit_def Let_def)

lemma close_while_quitting:
  "c \<in> set (serverCloseHandlers s) \<Longrightarrow> isQuitting s \<Longrightarrow>
     pythonProcess (child_closed c code s) = None \<and> timers (child_closed c code s) = timers s"
  by (simp add: child_closed_def server_on_close_def emit_def Let_def)

text \<open>
  Claim C3 on the code. \<open>stopPythonServer\<close> sets no flag. After a restart request (stop,
  then start) the close event of the killed process still runs the listener: it clears
  the stored handle, which by then is the handle of the replacement, and schedules
  \<open>startPythonServer\<close> again; when the timer fires a second replacement is spawned and
  two service processes run. After a bare stop the close event schedules a restart as
  well, and a replacement is spawned.
\<close>

theorem restart_spawns_twice:
  "pythonProcess (run init [StartServer sample_env, RestartServer sample_env, ServerClosed 0 None]) = None
   \<and> timers (run init [StartServer sample_env, RestartServer sample_env, ServerClosed 0 None]) = 1
   \<and> running_services (run init [StartServer sample_env, RestartServer sample_env, ServerClosed 0 None]) = [1]
   \<and> running_services
        (run init [StartServer sample_env, RestartServer sample_env, ServerClosed 0 None, TimerFire sample_env])
      = [1, 2]
   \<and> timers (run init [StartServer sample_env, StopServer sample_env, ServerClosed 0 None]) = 1
   \<and> running_services
        (run init [StartServer sample_env, StopServer sample_env, ServerClosed 0 None, TimerFire sample_env])
      = [1]"
  by (simp add: service_eval)


text \<open>
  In every state the application can reach, a start whose spawn yields no pid stores the
  failed child as the handle and starts no process. The status query reports
  \<open>running\<close> exactly when a handle is stored, so it reports \<open>true\<close> after the failed
  start and after every further sequence of events that holds no stop, no restart, no
  quit and no close event of another child; the failed child has no listener of its own.
\<close>

lemma failed_spawn_reports_running:
  "server_launch e = Launch cmd as cwd intro \<and> \<not> spawn_ok e (next_cid (run init evs0))
   \<and> (\<forall>ev \<in> set evs. keeps_handle (next_cid (run init evs0)) ev) \<longrightarrow>
     pythonProcess (fst (snd (startPythonServer e (run init evs0)))) =
       Some \<lparr>cid = next_cid (run init evs0), pid = spawn_pid e (next_cid (run init evs0)),
             command = cmd, args = as\<rparr>
   \<and> running_services (fst (snd (startPythonServer e (run init evs0)))) = running_services (run init evs0)
   \<and> fst (get_server_status e' (run (fst (snd (startPythonServer e (run init evs0)))) evs))
   \<and> next_cid (run init evs0) \<notin> set (running_services (run (fst (snd (startPythonServer e (run init evs0)))) evs))
   \<and> fst (get_server_status e' s) = (pythonProcess s \<noteq> None)"
proof -
  have st: "fst (get_server_status e' s) = (pythonProcess s \<noteq> None)"
    by (simp add: get_server_status_def)
  {
    assume l: "server_launch e = Launch cmd as cwd intro"
       and f: "\<not> spawn_ok e (next_cid (run init evs0))"
       and k: "\<forall>ev \<in> set evs. keeps_handle (next_cid (run init evs0)) ev"
    define s0 where "s0 = run init evs0"
    define s1 where "s1 = fst (snd (startPythonServer e s0))"
    have "ids_below s0" unfolding s0_def by (simp add: ids_below_run ids_below_init)
    then have fresh: "next_cid s0 \<notin> set (serverCloseHandlers s0)"
      by (auto simp: ids_below_def)
    have p: "pythonProcess s1 =
       Some \<lparr>cid = next_cid s0, pid = spawn_pid e (next_cid s0), command = cmd, args = as\<rparr>"
      and r: "running_services s1 = running_services s0"
      using l f unfolding s1_def s0_def by (simp_all add: startPythonServer_cases running_services_def)
    have n: "next_cid s1 = Suc (next_cid s0)"
      using l f unfolding s1_def s0_def by (simp add: startPythonServer_cases)
    have "handle_stays (next_cid s0) s1"
      using p r n fresh by (simp add: handle_stays_def running_services_def)
    then have "handle_stays (next_cid s0) (run s1 evs)"
      using k unfolding s0_def by (rule handle_stays_run)
    then have "fst (get_server_status e' (run s1 evs))
               \<and> next_cid s0 \<notin> set (running_services (run s1 evs))"
      by (simp add: handle_stays_def get_server_status_def running_services_def)
    with p r have "pythonProcess s1 =
       Some \<lparr>cid = next_cid s0, pid = spawn_pid e (next_cid s0), command = cmd, args = as\<rparr>
       \<and> running_services s1 = running_services s0
       \<and> fst (get_server_status e' (run s1 evs))
       \<and> next_cid s0 \<notin> set (running_services (run s1 evs))"
      by simp
  }
  then show ?thesis using st by (simp add: Let_def)
qed

text \<open>
  Claim C10 on the code. A restart whose spawn yields no pid stores the failed child, and
  the status query reports \<open>running = true\<close> although only the killed process is left.
  No stop or restart follows, and yet the report turns \<open>false\<close>: the close event of
  the process that the restart killed runs its listener, which clears the handle of the
  failed child. This is the stale listener of claim C3.
\<close>

theorem failed_spawn_cleared:
  "\<not> spawn_ok (sample_env\<lparr>spawn_pid := (\<lambda>c. None)\<rparr>) 1
   \<and> fst (get_server_status sample_env
        (run init [StartServer sample_env, RestartServer (sample_env\<lparr>spawn_pid := (\<lambda>c. None)\<rparr>)]))
   \<and> running_services
        (run init [StartServer sample_env, RestartServer (sample_env\<lparr>spawn_pid := (\<lambda>c. None)\<rparr>)]) = [0]
   \<and> \<not> fst (get_server_status sample_env
        (run init [StartServer sample_env, RestartServer (sample_env\<lparr>spawn_pid := (\<lambda>c. None)\<rparr>),
                   ServerClosed 0 None, GetServerStatus sample_env]))"
  by (simp add: service_eval sample_launch_no_pid)

lemma failed_spawn_at_launch:
  "pythonProcess (fst (snd (startPythonServer (sample_env\<lparr>spawn_pid := (\<lambda>c. None)\<rparr>) (run init [])))) =
       Some \<lparr>cid = 0, pid = None,
             command = ''/app/resources/python-dist/coursevault-server/coursevault-server'',
             args = [''--port'', ''8080'']\<rparr>
   \<and> fst (get_server_status sample_env
        (run (fst (snd (startPythonServer (sample_env\<lparr>spawn_pid := (\<lambda>c. None)\<rparr>) (run init []))))
             [GetServerStatus sample_env, ServerClosed 0 (Some 1), GetServerStatus sample_env]))"
proof -
  have n: "next_cid (run init []) = 0" by (simp add: run_Nil init_def)
  have f: "\<not> spawn_ok (sample_env\<lparr>spawn_pid := (\<lambda>c. None)\<rparr>) 0" by (simp add: spawn_ok_def)
  have k: "\<forall>ev \<in> set [GetServerStatus sample_env, ServerClosed 0 (Some 1), GetServerStatus sample_env].
             keeps_handle 0 ev"
    by simp
  show ?thesis
    using failed_spawn_reports_running [of "sample_env\<lparr>spawn_pid := (\<lambda>c. None)\<rparr>"
            "''/app/resources/python-dist/coursevault-server/coursevault-server''"
            "[''--port'', ''8080'']" "''/app/resources/python-dist/coursevault-server''"
            "''Starting Python server (bundled): /app/resources/python-dist/coursevault-server/coursevault-server''"
            "[]" "[GetServerStatus sample_env, ServerClosed 0 (Some 1), GetServerStatus sample_env]"
            sample_env init]
          n f k
    by (simp add: sample_launch_no_pid sample_launch)
qed







end
